theory Spec2Isabelle
  imports Main
begin

section \<open>Shared vocabulary\<close>

text \<open>
  The process environment maps a variable name to its value, when the variable is set.
  Both programs read it: the deployment script through \<^verbatim>\<open>${NAME:-word}\<close>, the
  lambda helper through \<^verbatim>\<open>process.env.ALB_URL\<close>.
\<close>

type_synonym env = "string \<Rightarrow> string option"

text \<open>\<^verbatim>\<open>s.startsWith(p)\<close>: the first \<open>length p\<close> characters of \<open>s\<close> are \<open>p\<close>.\<close>

definition startsWith :: "string \<Rightarrow> string \<Rightarrow> bool" where
  "startsWith p s = (take (length p) s = p)"

text \<open>
  A natural number in decimal, without leading zeros: how \<^verbatim>\<open>jq -r\<close> prints a
  count and how a template string renders an integer.
\<close>

definition digit :: "nat \<Rightarrow> char" where
  "digit d = ''0123456789'' ! d"

fun decimal :: "nat \<Rightarrow> string" where
  "decimal n = (if n < 10 then [digit n] else decimal (n div 10) @ [digit (n mod 10)])"

declare decimal.simps [simp del]

section \<open>The lambda helper: \<^verbatim>\<open>src/resources/lambda/processing/start/index.ts\<close>\<close>

subsection \<open>getBaseUrl\<close>

text \<open>A thrown \<^verbatim>\<open>new Error(message)\<close>.\<close>

datatype js_error = Error string

text \<open>
  The regular expression \<^verbatim>\<open>/\/+$/\<close> at one start position: one or more slashes
  (greedy), then the end of the input. There is no \<^verbatim>\<open>m\<close> flag, so \<^verbatim>\<open>$\<close> is the
  end of the whole string, and the match succeeds exactly when everything from the
  start position on is a non-empty run of slashes.
\<close>

definition slashes_to_end :: "string \<Rightarrow> bool" where
  "slashes_to_end s = (s \<noteq> [] \<and> list_all (\<lambda>c. c = CHR ''/'') s)"

text \<open>
  \<^verbatim>\<open>raw.replace(/\/+$/, '')\<close>: the regular expression has no \<^verbatim>\<open>g\<close> flag, so the
  leftmost match is replaced, once. The search tries the start positions from left to
  right; the first position where the expression matches ends the search, and since
  the match reaches the end of the input, what remains is the text before it.
\<close>

fun replace_trailing_slashes :: "string \<Rightarrow> string" where
  "replace_trailing_slashes [] = []"
| "replace_trailing_slashes (c # cs) =
     (if slashes_to_end (c # cs) then [] else c # replace_trailing_slashes cs)"

text \<open>
  \<^verbatim>\<open>getBaseUrl\<close> (lines 31-39). \<^verbatim>\<open>!raw\<close> holds for \<^verbatim>\<open>undefined\<close> (the variable
  is unset) and for the empty string.
\<close>

definition getBaseUrl :: "env \<Rightarrow> js_error + string" where
  "getBaseUrl e =
     (case e ''ALB_URL'' of
        None \<Rightarrow> Inl (Error ''ALB_URL environment variable is not set'')
      | Some raw \<Rightarrow>
          if raw = [] then Inl (Error ''ALB_URL environment variable is not set'')
          else if startsWith ''http://'' raw \<or> startsWith ''https://'' raw
            then Inr (replace_trailing_slashes raw)
            else Inr (''http://'' @ replace_trailing_slashes raw))"

subsection \<open>processBatch\<close>

text \<open>
  \<^verbatim>\<open>s.includes(sub)\<close>: \<open>sub\<close> occurs in \<open>s\<close> at some position.
\<close>

fun includes_sub :: "string \<Rightarrow> string \<Rightarrow> bool" where
  "includes_sub [] sub = (sub = [])"
| "includes_sub (c # cs) sub = (startsWith sub (c # cs) \<or> includes_sub cs sub)"

text \<open>An element of the \<^verbatim>\<open>files\<close> argument; a buffer is its bytes.\<close>

record file_input =
  buffer :: "nat list"
  filename :: string
  contentType :: string

text \<open>
  A \<^verbatim>\<open>FormData\<close> is the list of its fields in the order of the \<^verbatim>\<open>append\<close> calls:
  a file field (name, buffer, filename, content type) or a text field (name, value).
\<close>

datatype form_entry =
    FileEntry string "nat list" string string
  | TextEntry string string

text \<open>The body of a successful response (\<^verbatim>\<open>MixedBatchResponse\<close>).\<close>

record 'item MixedBatchResponse =
  success :: bool
  results :: "'item list"

text \<open>
  What a rejected \<^verbatim>\<open>axios.post\<close> throws: an Axios error (the status of the response
  when there is one, its data when that is a string, the message), another
  \<^verbatim>\<open>Error\<close> with its message, or a value that is no \<^verbatim>\<open>Error\<close>.
\<close>

datatype thrown =
    AxiosError "nat option" "string option" string
  | OtherError string
  | NotAnError

text \<open>The lines written to the console, with the values they interpolate.\<close>

datatype 'n console =
    LogGroundedBatch
  | LogProcessingBatch nat string
  | LogGroundedMode bool
  | LogSamplingParams "'n option" "'n option" "'n option"
  | LogAddingFile string nat string
  | LogBatchResponse nat
  | ErrRequestFailed "nat option" "string option" string
  | ErrUnknown

text \<open>
  The effects of a call, in order: a read of a variable of the environment, a console
  line, an HTTP POST (address, form, timeout in milliseconds).
\<close>

datatype 'n effect =
    ReadEnv string
  | Console "'n console"
  | HttpPost string "form_entry list" nat

definition DEFAULT_TIMEOUT_MS :: nat where
  "DEFAULT_TIMEOUT_MS = 600000"

text \<open>\<^verbatim>\<open>handleAxiosError\<close> (lines 79-98): the console line and the error thrown.\<close>

fun handleAxiosError :: "thrown \<Rightarrow> 'n console \<times> js_error" where
  "handleAxiosError (AxiosError status data message) =
     (ErrRequestFailed status data message,
      Error (''DeepSeek OCR request failed''
             @ (case status of
                  None \<Rightarrow> []
                | Some st \<Rightarrow> if st = 0 then [] else '' (status '' @ decimal st @ '')'')
             @ '': ''
             @ (case data of Some d \<Rightarrow> d | None \<Rightarrow> message)))"
| "handleAxiosError (OtherError message) = (ErrUnknown, Error message)"
| "handleAxiosError NotAnError = (ErrUnknown, Error ''Unknown DeepSeek OCR error'')"

text \<open>
  The loop of lines 358-364 over the remaining files, on the effects so far and the
  form so far.
\<close>

fun add_files ::
  "file_input list \<Rightarrow> 'n effect list \<times> form_entry list \<Rightarrow> 'n effect list \<times> form_entry list" where
  "add_files [] (eff, formData) = (eff, formData)"
| "add_files (f # fs) (eff, formData) =
     add_files fs
       (eff @ [Console (LogAddingFile (filename f) (length (buffer f)) (contentType f))],
        formData @ [FileEntry ''files'' (buffer f) (filename f) (contentType f)])"

text \<open>Lines 366-379: a text field for a sampling parameter that is given.\<close>

definition sampling_field :: "('n \<Rightarrow> string) \<Rightarrow> string \<Rightarrow> 'n option \<Rightarrow> form_entry list" where
  "sampling_field toString name v =
     (case v of None \<Rightarrow> [] | Some x \<Rightarrow> [TextEntry name (toString x)])"

text \<open>
  \<^verbatim>\<open>processBatch\<close> (lines 327-400). \<open>toString\<close> renders a number, \<open>post\<close> is the
  answer of the service to a request. An argument left out is \<open>None\<close>: \<open>prompt\<close>
  then is \<^verbatim>\<open><image>\<close> and \<open>grounded\<close> is false. The result is the effects of the
  call and the value it resolves to or the error it rejects with.
\<close>

definition processBatch ::
  "('n \<Rightarrow> string) \<Rightarrow> env \<Rightarrow> (string \<Rightarrow> form_entry list \<Rightarrow> thrown + 'item MixedBatchResponse)
     \<Rightarrow> file_input list \<Rightarrow> string option \<Rightarrow> bool option
     \<Rightarrow> 'n option \<Rightarrow> 'n option \<Rightarrow> 'n option
     \<Rightarrow> 'n effect list \<times> (js_error + 'item MixedBatchResponse)" where
  "processBatch toString e post files prompt_arg grounded_arg temperature top_p max_tokens =
     (if length files = 0 then ([], Inl (Error ''No files provided for batch processing''))
      else
        case getBaseUrl e of
          Inl err \<Rightarrow> ([ReadEnv ''ALB_URL''], Inl err)
        | Inr baseUrl \<Rightarrow>
            (let prompt = (case prompt_arg of None \<Rightarrow> ''<image>'' | Some p \<Rightarrow> p);
                 grounded = (case grounded_arg of None \<Rightarrow> False | Some g \<Rightarrow> g);
                 tagged = (if includes_sub prompt ''<image>'' then prompt else ''<image>'' @ prompt);
                 normalizedPrompt = (if grounded then ''<|grounding|>'' @ tagged else tagged);
                 eff1 = [ReadEnv ''ALB_URL'']
                   @ (if grounded then [Console LogGroundedBatch] else [])
                   @ [Console (LogProcessingBatch (length files) normalizedPrompt),
                      Console (LogGroundedMode grounded)]
                   @ (if temperature \<noteq> None \<or> top_p \<noteq> None \<or> max_tokens \<noteq> None
                      then [Console (LogSamplingParams temperature top_p max_tokens)] else []);
                 added = add_files files (eff1, []);
                 formData = snd added
                   @ [TextEntry ''prompt'' normalizedPrompt]
                   @ sampling_field toString ''temperature'' temperature
                   @ sampling_field toString ''top_p'' top_p
                   @ sampling_field toString ''max_tokens'' max_tokens;
                 eff2 = fst added @ [HttpPost (baseUrl @ ''/ocr/batch'') formData DEFAULT_TIMEOUT_MS]
             in case post (baseUrl @ ''/ocr/batch'') formData of
                  Inr data \<Rightarrow> (eff2 @ [Console (LogBatchResponse (length (results data)))], Inr data)
                | Inl error \<Rightarrow>
                    (case handleAxiosError error of
                       (line, err) \<Rightarrow> (eff2 @ [Console line], Inl err))))"

text \<open>The file fields of a form, and the requests among the effects.\<close>

fun is_file_entry :: "form_entry \<Rightarrow> bool" where
  "is_file_entry (FileEntry name bytes fname ctype) = True"
| "is_file_entry (TextEntry name v) = False"

fun request_of :: "'n effect \<Rightarrow> (string \<times> form_entry list \<times> nat) list" where
  "request_of (HttpPost url form ms) = [(url, form, ms)]"
| "request_of (ReadEnv name) = []"
| "request_of (Console line) = []"

definition requests :: "'n effect list \<Rightarrow> (string \<times> form_entry list \<times> nat) list" where
  "requests eff = concat (map request_of eff)"

definition files_field :: "file_input \<Rightarrow> form_entry" where
  "files_field f = FileEntry ''files'' (buffer f) (filename f) (contentType f)"

text \<open>A concrete call: one PDF, and a service that answers.\<close>

definition example_file :: file_input where
  "example_file =
     \<lparr> buffer = [37, 80, 68, 70], filename = ''a.pdf'', contentType = ''application/pdf'' \<rparr>"

definition example_post :: "string \<Rightarrow> form_entry list \<Rightarrow> thrown + unit MixedBatchResponse" where
  "example_post url form = Inr \<lparr> success = True, results = [()] \<rparr>"

definition example_alb :: env where
  "example_alb = [''ALB_URL'' \<mapsto> ''lb.internal/'']"

section \<open>The deployment script: \<^verbatim>\<open>scripts/deploy-ocr-update.sh\<close>\<close>

text \<open>
  The script is lines 1 to 163 of the file. What follows them in the file is
  TypeScript of another module (a stack of storage buckets), not shell, and is no part
  of the script.
\<close>

subsection \<open>Configuration (lines 11-18 and 135)\<close>

record config =
  PROJECT_NAME :: string
  AWS_REGION :: string
  AWS_ACCOUNT_ID :: string
  AWS_PROFILE :: string
  S3_BUCKET :: string
  S3_KEY :: string
  ECS_CLUSTER :: string
  ECS_SERVICE :: string

text \<open>
  \<^verbatim>\<open>${NAME:-word}\<close>: the value of \<open>NAME\<close>, or \<open>word\<close> when \<open>NAME\<close> is unset or
  set to the empty string.
\<close>

definition param_default :: "env \<Rightarrow> string \<Rightarrow> string \<Rightarrow> string" where
  "param_default e name word =
     (case e name of None \<Rightarrow> word | Some v \<Rightarrow> if v = [] then word else v)"

definition configuration :: "env \<Rightarrow> config" where
  "configuration e =
     \<lparr> PROJECT_NAME = ''deepseek-ocr-docker-build'',
       AWS_REGION = param_default e ''AWS_REGION'' ''us-east-1'',
       AWS_ACCOUNT_ID = param_default e ''AWS_ACCOUNT_ID'' ''098305555551'',
       AWS_PROFILE = param_default e ''AWS_PROFILE'' ''miketran+SA'',
       S3_BUCKET = ''dev-deepseek-ocr-files-bucket'',
       S3_KEY = ''codebuild-source/docker-source.zip'',
       ECS_CLUSTER = ''dev-deepseek-ocr-gpu-cluster'',
       ECS_SERVICE = ''dev-deepseek-ocr-gpu-service'' \<rparr>"

definition LOAD_BALANCER_URL :: string where
  "LOAD_BALANCER_URL = ''http://dev-deepseek-ocr-gpu-lb-1737323494.us-east-1.elb.amazonaws.com''"

definition MAX_WAIT_TIME :: nat where
  "MAX_WAIT_TIME = 600"

subsection \<open>What a run does, and what the outside world answers\<close>

text \<open>
  The lines the script prints, one constructor per \<^verbatim>\<open>echo\<close>, with the expanded
  variables as arguments (colour codes and pictographs are left out).
\<close>

datatype message =
    Starting
  | Step1 | Step2 | Step3 | Step4
  | BuildStarted string
  | Step5 | TypicallyTakes
  | BuildStatusLine string
  | BuildCompleted
  | BuildFailedWithStatus string
  | CheckBuildLogs string
  | Step6 | ServiceUpdateInitiated | Step7 | WaitingForTasks
  | DeploymentLine string string string
  | DeploymentCompleted
  | DeploymentFailed
  | DeploymentTakingLonger
  | Step8
  | ServiceHealthy | PipelineCompleted | ServiceEndpoint string
  | HealthCheckReturned string | MayStillBeStarting | CheckManually string
  | SummaryHeader | SummaryImageBuilt | SummaryServiceUpdated | SummaryEndpoint string
  | SummaryBlank | SummaryNextSteps | SummaryTestEndpoint string | SummaryMonitorLogs string

text \<open>
  The observable actions of a run, in order: a command with its argument words, a
  \<^verbatim>\<open>sleep\<close> with its seconds, a printed line. An unquoted expansion such as
  \<^verbatim>\<open>${AWS_PROFILE}\<close> is taken to be one word. The text filter \<^verbatim>\<open>jq\<close> reads
  and writes pipes only and leaves no event.
\<close>

datatype event = Run "string list" | Sleep nat | Echo message

text \<open>After a command: the shell has exited with a status, or control goes on.\<close>

datatype flow = Exit nat | Continue

text \<open>
  What the HTTP GET of the health check meets: a transport error (curl's exit status
  and whatever it had written by then) or a response (status code and body).
\<close>

datatype http_outcome = TransportError nat string | Response nat string

text \<open>
  The answers of everything outside the script during one run. A \<open>nat\<close> is an exit
  status; a pair is an exit status with the value captured by \<^verbatim>\<open>$(...)\<close>.
  \<^item> \<open>batch_get_builds w i\<close>: the \<open>i\<close>-th build-status poll (lines 62-66).
  \<^item> \<open>describe_services w i\<close>: the \<open>i\<close>-th deployment poll (lines 104-113): the status
    of the first of \<^verbatim>\<open>aws ecs describe-services\<close> and the three \<^verbatim>\<open>jq\<close> that
    fails (0 when none does), and the values assigned to \<^verbatim>\<open>RUNNING_COUNT\<close>,
    \<^verbatim>\<open>DESIRED_COUNT\<close>, \<^verbatim>\<open>ROLLOUT_STATE\<close>.
  \<^item> \<open>jq_status w input\<close>: exit status and standard output of
    \<^verbatim>\<open>jq -r '.status'\<close> on \<open>input\<close> (line 140).
\<close>

record world =
  cd_docker :: nat
  mktemp_d :: "nat \<times> string"
  zip_r :: nat
  s3_cp :: nat
  update_project :: nat
  start_build :: "nat \<times> string"
  batch_get_builds :: "nat \<Rightarrow> nat \<times> string"
  update_service :: nat
  describe_services :: "nat \<Rightarrow> nat \<times> string \<times> string \<times> string"
  curl_health :: http_outcome
  jq_status :: "string \<Rightarrow> nat \<times> string"
  rm_rf :: nat
  cd_up :: nat

subsection \<open>Simple commands under \<^verbatim>\<open>set -e\<close> (line 8)\<close>

definition echo :: "message \<Rightarrow> event list \<times> flow" where
  "echo m = ([Echo m], Continue)"

definition sleep :: "nat \<Rightarrow> event list \<times> flow" where
  "sleep n = ([Sleep n], Continue)"

text \<open>
  A simple command, or an assignment from one command substitution: with
  \<^verbatim>\<open>set -e\<close> a non-zero status ends the script with that status.
\<close>

definition run :: "string list \<Rightarrow> nat \<Rightarrow> event list \<times> flow" where
  "run argv rc = ([Run argv], if rc = 0 then Continue else Exit rc)"

text \<open>Commands in sequence: nothing runs after an exit.\<close>

fun exec :: "(event list \<times> flow) list \<Rightarrow> event list \<times> flow" where
  "exec [] = ([], Continue)"
| "exec ((ev, Exit rc) # rest) = (ev, Exit rc)"
| "exec ((ev, Continue) # rest) = (ev @ fst (exec rest), snd (exec rest))"

text \<open>The status of the script when it runs to its last line (an \<^verbatim>\<open>echo\<close>) is 0.\<close>

fun exit_code :: "flow \<Rightarrow> nat" where
  "exit_code (Exit rc) = rc"
| "exit_code Continue = 0"

subsection \<open>Steps 1 to 4: bundle, upload, start the build (lines 26-59)\<close>

definition TEMP_DIR :: "world \<Rightarrow> string" where
  "TEMP_DIR w = snd (mktemp_d w)"

definition BUILD_ID :: "world \<Rightarrow> string" where
  "BUILD_ID w = snd (start_build w)"

definition prelude_steps :: "world \<Rightarrow> config \<Rightarrow> (event list \<times> flow) list" where
  "prelude_steps w cfg =
     [ echo Starting,
       echo Step1,
       run [''cd'', ''docker''] (cd_docker w),
       run [''mktemp'', ''-d''] (fst (mktemp_d w)),
       run [''zip'', ''-r'', TEMP_DIR w @ ''/docker-source.zip'', ''.'', ''-x'',
            ''*.git*'', ''*.DS_Store''] (zip_r w),
       echo Step2,
       run [''aws'', ''s3'', ''cp'', TEMP_DIR w @ ''/docker-source.zip'',
            ''s3://'' @ S3_BUCKET cfg @ ''/'' @ S3_KEY cfg,
            ''--profile'', AWS_PROFILE cfg] (s3_cp w),
       echo Step3,
       run [''aws'', ''codebuild'', ''update-project'',
            ''--name'', PROJECT_NAME cfg,
            ''--source'', ''type=S3,location='' @ S3_BUCKET cfg @ ''/'' @ S3_KEY cfg,
            ''--region'', AWS_REGION cfg,
            ''--profile'', AWS_PROFILE cfg] (update_project w),
       echo Step4,
       run [''aws'', ''codebuild'', ''start-build'',
            ''--project-name'', PROJECT_NAME cfg,
            ''--region'', AWS_REGION cfg,
            ''--profile'', AWS_PROFILE cfg,
            ''--query'', ''build.id'',
            ''--output'', ''text''] (fst (start_build w)),
       echo (BuildStarted (BUILD_ID w)),
       echo Step5,
       echo TypicallyTakes ]"

definition prelude :: "world \<Rightarrow> config \<Rightarrow> event list \<times> flow" where
  "prelude w cfg = exec (prelude_steps w cfg)"

subsection \<open>Step 5: the build poll loop (lines 61-80)\<close>

definition build_probe :: "world \<Rightarrow> config \<Rightarrow> string list" where
  "build_probe w cfg =
     [''aws'', ''codebuild'', ''batch-get-builds'',
      ''--ids'', BUILD_ID w,
      ''--profile'', AWS_PROFILE cfg,
      ''--query'', ''builds[0].buildStatus'',
      ''--output'', ''text'']"

text \<open>\<^verbatim>\<open>${BUILD_ID##*/}\<close>: the longest prefix that ends in a slash is removed.\<close>

definition after_last_slash :: "string \<Rightarrow> string" where
  "after_last_slash s = rev (takeWhile (\<lambda>c. c \<noteq> CHR ''/'') (rev s))"

definition build_logs_url :: "world \<Rightarrow> config \<Rightarrow> string" where
  "build_logs_url w cfg =
     ''https://console.aws.amazon.com/codesuite/codebuild/projects/'' @ PROJECT_NAME cfg
       @ ''/build/'' @ after_last_slash (BUILD_ID w)"

text \<open>The test of line 73.\<close>

definition build_failure :: "string \<Rightarrow> bool" where
  "build_failure BUILD_STATUS =
     (BUILD_STATUS = ''FAILED'' \<or> BUILD_STATUS = ''FAULT''
      \<or> BUILD_STATUS = ''TIMED_OUT'' \<or> BUILD_STATUS = ''STOPPED'')"

text \<open>
  \<^verbatim>\<open>while true\<close>: the loop has no bound, so it is a partial function, and \<open>None\<close>
  is a run that polls forever. \<open>i\<close> counts the polls made so far and \<open>acc\<close> holds
  the events of the loop so far.
\<close>

partial_function (option) build_loop ::
  "world \<Rightarrow> config \<Rightarrow> nat \<Rightarrow> event list \<Rightarrow> (event list \<times> flow) option" where
  "build_loop w cfg i acc =
     (let rc = fst (batch_get_builds w i);
          BUILD_STATUS = snd (batch_get_builds w i)
      in if rc \<noteq> 0 then Some (acc @ [Run (build_probe w cfg)], Exit rc)
         else if BUILD_STATUS = ''SUCCEEDED''
           then Some (acc @ [Run (build_probe w cfg), Echo (BuildStatusLine BUILD_STATUS),
                             Echo BuildCompleted], Continue)
         else if build_failure BUILD_STATUS
           then Some (acc @ [Run (build_probe w cfg), Echo (BuildStatusLine BUILD_STATUS),
                             Echo (BuildFailedWithStatus BUILD_STATUS),
                             Echo (CheckBuildLogs (build_logs_url w cfg))], Exit 1)
         else build_loop w cfg (Suc i)
                (acc @ [Run (build_probe w cfg), Echo (BuildStatusLine BUILD_STATUS), Sleep 10]))"

subsection \<open>Steps 6 and 7: trigger the rollout and poll it (lines 82-131)\<close>

definition deploy_trigger :: "config \<Rightarrow> string list" where
  "deploy_trigger cfg =
     [''aws'', ''ecs'', ''update-service'',
      ''--cluster'', ECS_CLUSTER cfg,
      ''--service'', ECS_SERVICE cfg,
      ''--force-new-deployment'',
      ''--profile'', AWS_PROFILE cfg,
      ''--query'', ''service.serviceName'',
      ''--output'', ''text'']"

definition deploy_probe :: "config \<Rightarrow> string list" where
  "deploy_probe cfg =
     [''aws'', ''ecs'', ''describe-services'',
      ''--cluster'', ECS_CLUSTER cfg,
      ''--services'', ECS_SERVICE cfg,
      ''--profile'', AWS_PROFILE cfg,
      ''--query'',
      ''services[0].deployments[0].{Status:status,Running:runningCount,Desired:desiredCount,RolloutState:rolloutState}'',
      ''--output'', ''json'']"

text \<open>
  The deployment status behind a poll: the counts are natural numbers and the rollout
  state is one of three names. \<^verbatim>\<open>jq -r\<close> prints a count in decimal, without
  leading zeros, and a name as it is.
\<close>

datatype rollout_state = IN_PROGRESS | COMPLETED | FAILED

record DeploymentStatus =
  runningCount :: nat
  desiredCount :: nat
  rolloutState :: rollout_state

fun rollout_name :: "rollout_state \<Rightarrow> string" where
  "rollout_name IN_PROGRESS = ''IN_PROGRESS''"
| "rollout_name COMPLETED = ''COMPLETED''"
| "rollout_name FAILED = ''FAILED''"

definition rendered :: "DeploymentStatus \<Rightarrow> string \<times> string \<times> string" where
  "rendered ds =
     (decimal (runningCount ds), decimal (desiredCount ds), rollout_name (rolloutState ds))"

text \<open>The test of line 117, on the three strings as the shell compares them.\<close>

definition converged :: "string \<Rightarrow> string \<Rightarrow> string \<Rightarrow> bool" where
  "converged RUNNING_COUNT DESIRED_COUNT ROLLOUT_STATE =
     (ROLLOUT_STATE = ''COMPLETED'' \<and> RUNNING_COUNT = DESIRED_COUNT \<and> DESIRED_COUNT \<noteq> ''0'')"

text \<open>
  The loop of lines 103-127 from its test on. The result is the events, how the loop
  was left, and the final values of \<^verbatim>\<open>DEPLOYMENT_COMPLETE\<close> and
  \<^verbatim>\<open>ELAPSED_TIME\<close>. \<open>i\<close> counts the polls made so far.
\<close>

function deploy_loop ::
  "world \<Rightarrow> config \<Rightarrow> nat \<Rightarrow> bool \<Rightarrow> nat \<Rightarrow> event list \<times> flow \<times> bool \<times> nat" where
  "deploy_loop w cfg i DEPLOYMENT_COMPLETE ELAPSED_TIME =
     (if \<not> DEPLOYMENT_COMPLETE \<and> ELAPSED_TIME < MAX_WAIT_TIME then
        (let rc = fst (describe_services w i);
             RUNNING_COUNT = fst (snd (describe_services w i));
             DESIRED_COUNT = fst (snd (snd (describe_services w i)));
             ROLLOUT_STATE = snd (snd (snd (describe_services w i)));
             line = Echo (DeploymentLine RUNNING_COUNT DESIRED_COUNT ROLLOUT_STATE)
         in if rc \<noteq> 0 then ([Run (deploy_probe cfg)], Exit rc, DEPLOYMENT_COMPLETE, ELAPSED_TIME)
            else if converged RUNNING_COUNT DESIRED_COUNT ROLLOUT_STATE then
              (let rest = deploy_loop w cfg (Suc i) True (ELAPSED_TIME + 10)
               in ([Run (deploy_probe cfg), line, Echo DeploymentCompleted, Sleep 10] @ fst rest,
                   snd rest))
            else if ROLLOUT_STATE = ''FAILED'' then
              ([Run (deploy_probe cfg), line, Echo DeploymentFailed], Exit 1,
               DEPLOYMENT_COMPLETE, ELAPSED_TIME)
            else
              (let rest = deploy_loop w cfg (Suc i) DEPLOYMENT_COMPLETE (ELAPSED_TIME + 10)
               in ([Run (deploy_probe cfg), line, Sleep 10] @ fst rest, snd rest)))
      else ([], Continue, DEPLOYMENT_COMPLETE, ELAPSED_TIME))"
  by pat_completeness auto
termination
  by (relation "measure (\<lambda>(w, cfg, i, c, e). MAX_WAIT_TIME - e)") auto

declare deploy_loop.simps [simp del]

text \<open>Lines 99-131: the loop from its initial state, then the warning of line 130.\<close>

definition deploy_stage :: "world \<Rightarrow> config \<Rightarrow> event list \<times> flow" where
  "deploy_stage w cfg =
     (case deploy_loop w cfg 0 False 0 of
        (ev, Exit rc, DEPLOYMENT_COMPLETE, ELAPSED_TIME) \<Rightarrow> (ev, Exit rc)
      | (ev, Continue, DEPLOYMENT_COMPLETE, ELAPSED_TIME) \<Rightarrow>
          (if \<not> DEPLOYMENT_COMPLETE then (ev @ [Echo DeploymentTakingLonger], Continue)
           else (ev, Continue)))"

subsection \<open>Step 8: the health check (lines 133-150)\<close>

text \<open>
  \<^verbatim>\<open>curl -s URL\<close>: the body goes to standard output. No \<^verbatim>\<open>--fail\<close> is given, so
  a response is written and the status is 0 whatever its HTTP status code.
\<close>

fun curl_s :: "http_outcome \<Rightarrow> nat \<times> string" where
  "curl_s (TransportError rc partial) = (rc, partial)"
| "curl_s (Response code body) = (0, body)"

text \<open>\<^verbatim>\<open>$(...)\<close> removes the trailing newlines of what it captures.\<close>

definition command_subst :: "string \<Rightarrow> string" where
  "command_subst out = rev (dropWhile (\<lambda>c. c = CHR 0x0A) (rev out))"

text \<open>
  Line 140. The status of the pipeline is the status of \<^verbatim>\<open>jq\<close> (no
  \<^verbatim>\<open>pipefail\<close>), so \<^verbatim>\<open>echo "failed"\<close> runs exactly when \<^verbatim>\<open>jq\<close> fails, and its
  line follows whatever \<^verbatim>\<open>jq\<close> had written. The status of \<^verbatim>\<open>curl\<close> is
  dropped, and the list after \<^verbatim>\<open>||\<close> ends with status 0, so the assignment never
  ends the script.
\<close>

definition HEALTH_CHECK :: "world \<Rightarrow> string" where
  "HEALTH_CHECK w =
     (let jq = jq_status w (snd (curl_s (curl_health w)))
      in command_subst (if fst jq = 0 then snd jq else snd jq @ ''failed'' @ [CHR 0x0A]))"

definition health_probe :: "string list" where
  "health_probe = [''curl'', ''-s'', LOAD_BALANCER_URL @ ''/health'']"

definition health_stage :: "world \<Rightarrow> event list \<times> flow" where
  "health_stage w = exec
     ([ echo Step8,
        sleep 30,
        ([Run health_probe], Continue) ]
      @ (if HEALTH_CHECK w = ''healthy''
         then [ echo ServiceHealthy,
                echo PipelineCompleted,
                echo (ServiceEndpoint LOAD_BALANCER_URL) ]
         else [ echo (HealthCheckReturned (HEALTH_CHECK w)),
                echo MayStillBeStarting,
                echo (CheckManually (LOAD_BALANCER_URL @ ''/health'')) ]))"

subsection \<open>Cleanup and summary (lines 152-163), and the whole script\<close>

definition cleanup :: "world \<Rightarrow> config \<Rightarrow> event list \<times> flow" where
  "cleanup w cfg = exec
     [ run [''rm'', ''-rf'', TEMP_DIR w] (rm_rf w),
       run [''cd'', ''..''] (cd_up w),
       echo SummaryHeader,
       echo SummaryImageBuilt,
       echo SummaryServiceUpdated,
       echo (SummaryEndpoint LOAD_BALANCER_URL),
       echo SummaryBlank,
       echo SummaryNextSteps,
       echo (SummaryTestEndpoint LOAD_BALANCER_URL),
       echo (SummaryMonitorLogs (AWS_PROFILE cfg)) ]"

text \<open>Everything after the build loop (lines 82-163).\<close>

definition after_build :: "world \<Rightarrow> config \<Rightarrow> event list \<times> flow" where
  "after_build w cfg = exec
     [ echo Step6,
       run (deploy_trigger cfg) (update_service w),
       echo ServiceUpdateInitiated,
       echo Step7,
       echo WaitingForTasks,
       deploy_stage w cfg,
       health_stage w,
       cleanup w cfg ]"

text \<open>
  The script: the events of the run and the exit status of the process, or \<open>None\<close>
  when the build loop polls forever.
\<close>

definition main :: "env \<Rightarrow> world \<Rightarrow> (event list \<times> nat) option" where
  "main e w =
     (let cfg = configuration e in
      case prelude w cfg of
        (ev1, Exit rc) \<Rightarrow> Some (ev1, rc)
      | (ev1, Continue) \<Rightarrow>
          (case build_loop w cfg 0 [] of
             None \<Rightarrow> None
           | Some (ev2, Exit rc) \<Rightarrow> Some (ev1 @ ev2, rc)
           | Some (ev2, Continue) \<Rightarrow>
               Some (ev1 @ ev2 @ fst (after_build w cfg),
                     exit_code (snd (after_build w cfg)))))"

subsection \<open>Vocabulary for the properties of the script\<close>

text \<open>The commands of steps 1 to 4 all succeed, so the run reaches the build loop.\<close>

definition prelude_ok :: "world \<Rightarrow> bool" where
  "prelude_ok w =
     (cd_docker w = 0 \<and> fst (mktemp_d w) = 0 \<and> zip_r w = 0 \<and> s3_cp w = 0
      \<and> update_project w = 0 \<and> fst (start_build w) = 0)"

text \<open>The two commands of the cleanup succeed.\<close>

definition cleanup_ok :: "world \<Rightarrow> bool" where
  "cleanup_ok w = (rm_rf w = 0 \<and> cd_up w = 0)"

text \<open>
  A build poll that answers and is not terminal: the loop sleeps and polls again.
\<close>

definition build_pending :: "world \<Rightarrow> nat \<Rightarrow> bool" where
  "build_pending w j =
     (fst (batch_get_builds w j) = 0
      \<and> snd (batch_get_builds w j) \<noteq> ''SUCCEEDED''
      \<and> \<not> build_failure (snd (batch_get_builds w j)))"

text \<open>The events of the build polls \<open>i\<close>, ..., \<open>i + k - 1\<close> when all are pending.\<close>

definition build_ticks :: "world \<Rightarrow> config \<Rightarrow> nat \<Rightarrow> nat \<Rightarrow> event list" where
  "build_ticks w cfg i k =
     concat (map (\<lambda>j. [Run (build_probe w cfg),
                        Echo (BuildStatusLine (snd (batch_get_builds w j))),
                        Sleep 10]) [i..<i + k])"

text \<open>The first terminal build poll is poll \<open>k\<close>, and it reports \<open>SUCCEEDED\<close>.\<close>

definition build_succeeds_at :: "world \<Rightarrow> nat \<Rightarrow> bool" where
  "build_succeeds_at w k =
     ((\<forall>j<k. build_pending w j) \<and> batch_get_builds w k = (0, ''SUCCEEDED''))"

text \<open>The line printed for deployment poll \<open>j\<close> (line 115).\<close>

definition deploy_line :: "world \<Rightarrow> nat \<Rightarrow> event" where
  "deploy_line w j =
     Echo (DeploymentLine (fst (snd (describe_services w j)))
                          (fst (snd (snd (describe_services w j))))
                          (snd (snd (snd (describe_services w j)))))"

text \<open>
  A deployment poll that answers and gives no verdict: not converged, and the rollout
  state is not \<open>FAILED\<close>.
\<close>

definition deploy_pending :: "world \<Rightarrow> nat \<Rightarrow> bool" where
  "deploy_pending w j =
     (fst (describe_services w j) = 0
      \<and> \<not> converged (fst (snd (describe_services w j)))
                      (fst (snd (snd (describe_services w j))))
                      (snd (snd (snd (describe_services w j))))
      \<and> snd (snd (snd (describe_services w j))) \<noteq> ''FAILED'')"

text \<open>The events of the deployment polls \<open>i\<close>, ..., \<open>i + k - 1\<close> when all are pending.\<close>

definition deploy_ticks :: "world \<Rightarrow> config \<Rightarrow> nat \<Rightarrow> nat \<Rightarrow> event list" where
  "deploy_ticks w cfg i k =
     concat (map (\<lambda>j. [Run (deploy_probe cfg), deploy_line w j, Sleep 10]) [i..<i + k])"

text \<open>How often a command was run, and the seconds slept, in a list of events.\<close>

definition count_runs :: "string list \<Rightarrow> event list \<Rightarrow> nat" where
  "count_runs argv ev = length (filter (\<lambda>x. x = Run argv) ev)"

fun sleep_seconds :: "event \<Rightarrow> nat" where
  "sleep_seconds (Sleep n) = n"
| "sleep_seconds (Run argv) = 0"
| "sleep_seconds (Echo m) = 0"

definition total_sleep :: "event list \<Rightarrow> nat" where
  "total_sleep ev = sum_list (map sleep_seconds ev)"

text \<open>Commands of the container service, and HTTP requests.\<close>

definition is_ecs :: "string list \<Rightarrow> bool" where
  "is_ecs argv = (take 2 argv = [''aws'', ''ecs''])"

definition is_curl :: "string list \<Rightarrow> bool" where
  "is_curl argv = (take 1 argv = [''curl''])"

text \<open>
  The run reaches the deployment loop: steps 1 to 4 succeed, the first terminal build
  status is \<open>SUCCEEDED\<close>, at poll \<open>k\<close>, and the trigger of step 6 succeeds.
\<close>

definition reaches_deploy :: "world \<Rightarrow> nat \<Rightarrow> bool" where
  "reaches_deploy w k = (prelude_ok w \<and> build_succeeds_at w k \<and> update_service w = 0)"

text \<open>The events of such a run up to the start of the deployment loop.\<close>

definition before_deploy :: "world \<Rightarrow> config \<Rightarrow> nat \<Rightarrow> event list" where
  "before_deploy w cfg k =
     fst (prelude w cfg) @ build_ticks w cfg 0 k
       @ [Run (build_probe w cfg), Echo (BuildStatusLine ''SUCCEEDED''), Echo BuildCompleted,
          Echo Step6, Run (deploy_trigger cfg), Echo ServiceUpdateInitiated,
          Echo Step7, Echo WaitingForTasks]"

text \<open>
  The value that follows an option name among the words of a command, and the request
  timeout a \<^verbatim>\<open>curl\<close> command line sets: the value of \<^verbatim>\<open>--max-time\<close> or
  \<^verbatim>\<open>-m\<close>, when there is one.
\<close>

fun option_value :: "string \<Rightarrow> string list \<Rightarrow> string option" where
  "option_value name (a # b # rest) =
     (if a = name then Some b else option_value name (b # rest))"
| "option_value name rest = None"

definition request_timeout :: "string list \<Rightarrow> string option" where
  "request_timeout argv =
     (case option_value ''--max-time'' argv of
        Some t \<Rightarrow> Some t
      | None \<Rightarrow> option_value ''-m'' argv)"

text \<open>The HTTP requests among the events: the \<^verbatim>\<open>curl\<close> command lines, in order.\<close>

definition http_requests :: "event list \<Rightarrow> string list list" where
  "http_requests ev =
     concat (map (\<lambda>x. case x of Run argv \<Rightarrow> if is_curl argv then [argv] else [] | _ \<Rightarrow> []) ev)"

subsection \<open>A concrete run\<close>

text \<open>
  A world in which every command succeeds: the build is in progress for two polls and
  then succeeds, the rollout converges at the third poll, and the service answers
  the health check with status \<open>healthy\<close>.
\<close>

definition healthy_body :: string where
  "healthy_body = ''{\"status\":\"healthy\"}''"

definition example_jq :: "string \<Rightarrow> nat \<times> string" where
  "example_jq input =
     (if input = healthy_body then (0, ''healthy'' @ [CHR 0x0A])
      else if input = [] then (0, [])
      else (2, []))"

definition example_world :: world where
  "example_world =
     \<lparr> cd_docker = 0,
       mktemp_d = (0, ''/tmp/tmp.Xq3''),
       zip_r = 0,
       s3_cp = 0,
       update_project = 0,
       start_build = (0, ''deepseek-ocr-docker-build:7c1e''),
       batch_get_builds = (\<lambda>i. if i < 2 then (0, ''IN_PROGRESS'') else (0, ''SUCCEEDED'')),
       update_service = 0,
       describe_services =
         (\<lambda>i. if i < 2 then (0, ''1'', ''2'', ''IN_PROGRESS'') else (0, ''2'', ''2'', ''COMPLETED'')),
       curl_health = Response 200 healthy_body,
       jq_status = example_jq,
       rm_rf = 0,
       cd_up = 0 \<rparr>"

text \<open>Variants of the run, each changing one answer of the world.\<close>

definition build_timed_out_world :: world where
  "build_timed_out_world =
     example_world\<lparr>batch_get_builds :=
       \<lambda>i. if i < 2 then (0, ''IN_PROGRESS'') else (0, ''TIMED_OUT'')\<rparr>"

definition converged_at_once_world :: world where
  "converged_at_once_world =
     example_world\<lparr>describe_services := \<lambda>i. (0, ''2'', ''2'', ''COMPLETED'')\<rparr>"

definition scaled_to_zero_world :: world where
  "scaled_to_zero_world =
     example_world\<lparr>describe_services := \<lambda>i. (0, ''0'', ''0'', ''COMPLETED'')\<rparr>"

definition stalled_world :: world where
  "stalled_world =
     example_world\<lparr>describe_services := \<lambda>i. (0, ''1'', ''2'', ''IN_PROGRESS'')\<rparr>"

definition error_page_world :: world where
  "error_page_world = example_world\<lparr>curl_health := Response 500 ''Internal Server Error''\<rparr>"

definition healthy_500_world :: world where
  "healthy_500_world = example_world\<lparr>curl_health := Response 500 healthy_body\<rparr>"

text \<open>The environment in which no variable is set.\<close>

definition empty_env :: env where
  "empty_env = Map.empty"

section \<open>Properties of the lambda helper\<close>

lemma slashes_to_end_replicate:
  "slashes_to_end s \<longleftrightarrow> (\<exists>k. s = replicate (Suc k) CHR ''/'')"
proof
  assume h: "slashes_to_end s"
  then have "s = replicate (length s) CHR ''/''"
    by (simp add: slashes_to_end_def list_all_iff replicate_length_same)
  moreover from h obtain k where "length s = Suc k"
    by (cases s) (auto simp: slashes_to_end_def)
  ultimately show "\<exists>k. s = replicate (Suc k) CHR ''/''" by metis
next
  assume "\<exists>k. s = replicate (Suc k) CHR ''/''"
  then show "slashes_to_end s"
    by (auto simp: slashes_to_end_def list_all_iff)
qed

lemma replace_trailing_slashes_decomp:
  "\<exists>k. s = replace_trailing_slashes s @ replicate k CHR ''/''"
proof (induction s)
  case Nil
  show ?case by simp
next
  case (Cons c cs)
  show ?case
  proof (cases "slashes_to_end (c # cs)")
    case True
    then obtain k where "c # cs = replicate (Suc k) CHR ''/''"
      using slashes_to_end_replicate by blast
    then have "c # cs = replace_trailing_slashes (c # cs) @ replicate (Suc k) CHR ''/''"
      using True by simp
    then show ?thesis by blast
  next
    case False
    from Cons.IH obtain k where "cs = replace_trailing_slashes cs @ replicate k CHR ''/''"
      by blast
    then have "c # cs = replace_trailing_slashes (c # cs) @ replicate k CHR ''/''"
      using False by simp
    then show ?thesis by blast
  qed
qed

lemma replace_trailing_slashes_last:
  "replace_trailing_slashes s \<noteq> [] \<Longrightarrow> last (replace_trailing_slashes s) \<noteq> CHR ''/''"
proof (induction s)
  case Nil
  then show ?case by simp
next
  case (Cons c cs)
  show ?case
  proof (cases "slashes_to_end (c # cs)")
    case True
    with Cons.prems show ?thesis by simp
  next
    case False
    show ?thesis
    proof (cases "replace_trailing_slashes cs = []")
      case True
      from replace_trailing_slashes_decomp [of cs] obtain k
        where k: "cs = replicate k CHR ''/''" using True by auto
      have "c \<noteq> CHR ''/''"
      proof
        assume "c = CHR ''/''"
        then have "c # cs = replicate (Suc k) CHR ''/''" using k by simp
        then show False using False slashes_to_end_replicate by blast
      qed
      then show ?thesis using False True by simp
    next
      case nonempty: False
      then show ?thesis using False Cons.IH by simp
    qed
  qed
qed

text \<open>
  C9. \<^verbatim>\<open>getBaseUrl\<close> throws when \<^verbatim>\<open>ALB_URL\<close> is unset or empty. For every other
  value it returns the value without its trailing slashes: the value is the result's
  stem followed by slashes only, and the stem does not end in a slash. The stem is
  prefixed with \<^verbatim>\<open>http://\<close> exactly when the value starts with neither
  \<^verbatim>\<open>http://\<close> nor \<^verbatim>\<open>https://\<close>; a value that carries a scheme gets no prefix.
\<close>

theorem getBaseUrl_spec:
  "(e ''ALB_URL'' = None \<or> e ''ALB_URL'' = Some [] \<longrightarrow>
      getBaseUrl e = Inl (Error ''ALB_URL environment variable is not set''))
   \<and> (\<forall>raw. e ''ALB_URL'' = Some raw \<and> raw \<noteq> [] \<longrightarrow>
        (\<exists>stem k. raw = stem @ replicate k CHR ''/''
           \<and> (stem \<noteq> [] \<longrightarrow> last stem \<noteq> CHR ''/'')
           \<and> getBaseUrl e =
               Inr (if take 7 raw = ''http://'' \<or> take 8 raw = ''https://''
                    then stem else ''http://'' @ stem)))"
proof (intro conjI allI impI)
  assume "e ''ALB_URL'' = None \<or> e ''ALB_URL'' = Some []"
  then show "getBaseUrl e = Inl (Error ''ALB_URL environment variable is not set'')"
    by (auto simp: getBaseUrl_def)
next
  fix raw
  assume h: "e ''ALB_URL'' = Some raw \<and> raw \<noteq> []"
  obtain k where k: "raw = replace_trailing_slashes raw @ replicate k CHR ''/''"
    using replace_trailing_slashes_decomp by blast
  have l: "replace_trailing_slashes raw \<noteq> [] \<longrightarrow> last (replace_trailing_slashes raw) \<noteq> CHR ''/''"
    using replace_trailing_slashes_last by blast
  have g: "getBaseUrl e =
      Inr (if take 7 raw = ''http://'' \<or> take 8 raw = ''https://''
           then replace_trailing_slashes raw else ''http://'' @ replace_trailing_slashes raw)"
    using h by (simp add: getBaseUrl_def startsWith_def eval_nat_numeral)
  from k l g show "\<exists>stem k. raw = stem @ replicate k CHR ''/''
           \<and> (stem \<noteq> [] \<longrightarrow> last stem \<noteq> CHR ''/'')
           \<and> getBaseUrl e =
               Inr (if take 7 raw = ''http://'' \<or> take 8 raw = ''https://''
                    then stem else ''http://'' @ stem)"
    by blast
qed

theorem getBaseUrl_spec_witness:
  "getBaseUrl empty_env = Inl (Error ''ALB_URL environment variable is not set'')
   \<and> example_alb ''ALB_URL'' = Some ''lb.internal/''
   \<and> (\<exists>stem k. ''lb.internal/'' = stem @ replicate k CHR ''/''
         \<and> (stem \<noteq> [] \<longrightarrow> last stem \<noteq> CHR ''/'')
         \<and> getBaseUrl example_alb = Inr (''http://'' @ stem))"
  using getBaseUrl_spec [of empty_env] getBaseUrl_spec [of example_alb]
  by (simp add: empty_env_def example_alb_def)

subsection \<open>processBatch\<close>

lemma add_files_form: "snd (add_files fs (eff, fd)) = fd @ map files_field fs"
  by (induction fs arbitrary: eff fd) (simp_all add: files_field_def)

lemma add_files_requests: "requests (fst (add_files fs (eff, fd))) = requests eff"
  by (induction fs arbitrary: eff fd) (simp_all add: requests_def)

lemma sampling_field_text: "filter is_file_entry (sampling_field toS name v) = []"
  by (cases v) (simp_all add: sampling_field_def)

lemma filter_files_field: "filter is_file_entry (map files_field fs) = map files_field fs"
  by (induction fs) (simp_all add: files_field_def)

lemma requests_append: "requests (a @ b) = requests a @ requests b"
  by (simp add: requests_def)

lemma requests_add_files: "requests (fst (add_files fs (eff, fd))) = requests eff"
  by (rule add_files_requests)

lemma processBatch_empty:
  "processBatch toS e post [] p g t tp mt =
     ([], Inl (Error ''No files provided for batch processing''))"
  by (simp add: processBatch_def)

lemma processBatch_no_url:
  "files \<noteq> [] \<Longrightarrow> getBaseUrl e = Inl err \<Longrightarrow>
   processBatch toS e post files p g t tp mt = ([ReadEnv ''ALB_URL''], Inl err)"
  by (simp add: processBatch_def)

lemma processBatch_requests_url:
  assumes "files \<noteq> []" and "getBaseUrl e = Inr baseUrl"
  shows "\<exists>fields. filter is_file_entry fields = []
           \<and> requests (fst (processBatch toS e post files p g t tp mt)) =
               [(baseUrl @ ''/ocr/batch'', map files_field files @ fields, DEFAULT_TIMEOUT_MS)]"
proof -
  define prompt where "prompt = (case p of None \<Rightarrow> ''<image>'' | Some x \<Rightarrow> x)"
  define grounded where "grounded = (case g of None \<Rightarrow> False | Some b \<Rightarrow> b)"
  define tagged where
    "tagged = (if includes_sub prompt ''<image>'' then prompt else ''<image>'' @ prompt)"
  define normalizedPrompt where
    "normalizedPrompt = (if grounded then ''<|grounding|>'' @ tagged else tagged)"
  define eff1 :: "'a effect list" where "eff1 = [ReadEnv ''ALB_URL'']
                   @ (if grounded then [Console LogGroundedBatch] else [])
                   @ [Console (LogProcessingBatch (length files) normalizedPrompt),
                      Console (LogGroundedMode grounded)]
                   @ (if t \<noteq> None \<or> tp \<noteq> None \<or> mt \<noteq> None
                      then [Console (LogSamplingParams t tp mt)] else [])"
  define fields where "fields = [TextEntry ''prompt'' normalizedPrompt]
                   @ sampling_field toS ''temperature'' t
                   @ sampling_field toS ''top_p'' tp
                   @ sampling_field toS ''max_tokens'' mt"
  define formData where "formData = snd (add_files files (eff1, [])) @ fields"
  define eff2 where "eff2 = fst (add_files files (eff1, []))
      @ [HttpPost (baseUrl @ ''/ocr/batch'') formData DEFAULT_TIMEOUT_MS]"
  have pb: "processBatch toS e post files p g t tp mt =
     (case post (baseUrl @ ''/ocr/batch'') formData of
        Inr data \<Rightarrow> (eff2 @ [Console (LogBatchResponse (length (results data)))], Inr data)
      | Inl error \<Rightarrow>
          (case handleAxiosError error of
             (line, err) \<Rightarrow> (eff2 @ [Console line], Inl err)))"
    unfolding processBatch_def Let_def eff2_def formData_def fields_def eff1_def
      normalizedPrompt_def tagged_def grounded_def prompt_def
    using assms by simp
  have e1: "requests eff1 = []"
    by (simp add: eff1_def requests_def)
  have e2: "requests eff2 = [(baseUrl @ ''/ocr/batch'', formData, DEFAULT_TIMEOUT_MS)]"
    by (simp add: eff2_def requests_append requests_add_files e1) (simp add: requests_def)
  have "requests (fst (processBatch toS e post files p g t tp mt)) = requests eff2"
    unfolding pb
    by (cases "post (baseUrl @ ''/ocr/batch'') formData")
       (simp_all add: requests_append split: prod.splits, simp_all add: requests_def)
  moreover have "formData = map files_field files @ fields"
    by (simp add: formData_def add_files_form)
  moreover have "filter is_file_entry fields = []"
    by (simp add: fields_def sampling_field_text)
  ultimately show ?thesis using e2 by simp
qed

text \<open>
  C10. For the empty list \<^verbatim>\<open>processBatch\<close> rejects with
  \<^verbatim>\<open>No files provided for batch processing\<close> and has no effect at all: the
  environment is not read and no request is made. For a non-empty list, every request
  the call sends carries a form whose file fields are exactly the files, in order, each
  under the field name \<^verbatim>\<open>files\<close>; there is one such request, to \<^verbatim>\<open>/ocr/batch\<close>,
  whenever \<^verbatim>\<open>ALB_URL\<close> gives a base address, and when it gives none the call
  rejects after reading the environment, before a form exists.
\<close>

theorem processBatch_files:
  "processBatch toS e post [] p g t tp mt =
     ([], Inl (Error ''No files provided for batch processing''))
   \<and> (files \<noteq> [] \<longrightarrow>
        (\<forall>url form ms.
            (url, form, ms) \<in> set (requests (fst (processBatch toS e post files p g t tp mt)))
            \<longrightarrow> filter is_file_entry form = map files_field files)
        \<and> (\<forall>baseUrl. getBaseUrl e = Inr baseUrl \<longrightarrow>
              (\<exists>form. requests (fst (processBatch toS e post files p g t tp mt)) =
                 [(baseUrl @ ''/ocr/batch'', form, DEFAULT_TIMEOUT_MS)]))
        \<and> (\<forall>err. getBaseUrl e = Inl err \<longrightarrow>
              processBatch toS e post files p g t tp mt = ([ReadEnv ''ALB_URL''], Inl err)))"
proof (intro conjI impI allI)
  show "processBatch toS e post [] p g t tp mt =
     ([], Inl (Error ''No files provided for batch processing''))"
    by (rule processBatch_empty)
next
  fix url form ms
  assume ne: "files \<noteq> []"
    and m: "(url, form, ms) \<in> set (requests (fst (processBatch toS e post files p g t tp mt)))"
  show "filter is_file_entry form = map files_field files"
  proof (cases "getBaseUrl e")
    case (Inl err)
    then show ?thesis using m processBatch_no_url [OF ne Inl, of toS post p g t tp mt]
      by (simp add: requests_def)
  next
    case (Inr baseUrl)
    from processBatch_requests_url [OF ne Inr, of toS post p g t tp mt]
    obtain fields where "filter is_file_entry fields = []"
      and "requests (fst (processBatch toS e post files p g t tp mt)) =
             [(baseUrl @ ''/ocr/batch'', map files_field files @ fields, DEFAULT_TIMEOUT_MS)]"
      by blast
    then show ?thesis using m by (simp add: filter_files_field)
  qed
next
  fix baseUrl
  assume "files \<noteq> []" and "getBaseUrl e = Inr baseUrl"
  then show "\<exists>form. requests (fst (processBatch toS e post files p g t tp mt)) =
                 [(baseUrl @ ''/ocr/batch'', form, DEFAULT_TIMEOUT_MS)]"
    using processBatch_requests_url [of files e baseUrl toS post p g t tp mt] by blast
next
  fix err
  assume "files \<noteq> []" and "getBaseUrl e = Inl err"
  then show "processBatch toS e post files p g t tp mt = ([ReadEnv ''ALB_URL''], Inl err)"
    by (rule processBatch_no_url)
qed

theorem processBatch_files_witness:
  "processBatch decimal example_alb example_post [] None None (Some (1::nat)) None None =
     ([], Inl (Error ''No files provided for batch processing''))
   \<and> [example_file] \<noteq> []
   \<and> getBaseUrl example_alb = Inr ''http://lb.internal''
   \<and> (\<exists>form. requests (fst (processBatch decimal example_alb example_post [example_file]
                               None None (Some (1::nat)) None None)) =
                [(''http://lb.internal/ocr/batch'', form, DEFAULT_TIMEOUT_MS)]
              \<and> filter is_file_entry form =
                  [FileEntry ''files'' [37, 80, 68, 70] ''a.pdf'' ''application/pdf''])"
proof -
  have u: "getBaseUrl example_alb = Inr ''http://lb.internal''"
    by (simp add: getBaseUrl_def example_alb_def startsWith_def slashes_to_end_def)
  have ne: "[example_file] \<noteq> []" by simp
  note t = processBatch_files [of decimal example_alb example_post None None "Some (1::nat)"
      None None "[example_file]"]
  from t ne u obtain form
    where r: "requests (fst (processBatch decimal example_alb example_post [example_file]
                               None None (Some (1::nat)) None None)) =
                [(''http://lb.internal/ocr/batch'', form, DEFAULT_TIMEOUT_MS)]"
    by auto
  from t ne r have "filter is_file_entry form = map files_field [example_file]" by auto
  then have "filter is_file_entry form =
      [FileEntry ''files'' [37, 80, 68, 70] ''a.pdf'' ''application/pdf'']"
    by (simp add: files_field_def example_file_def)
  with t u r show ?thesis by auto
qed

section \<open>Properties of the deployment script\<close>

subsection \<open>Decimal numerals\<close>

lemma digit_inj: "a < 10 \<Longrightarrow> b < 10 \<Longrightarrow> digit a = digit b \<Longrightarrow> a = b"
  unfolding digit_def
  by (simp add: less_Suc_eq eval_nat_numeral, elim disjE; simp)

lemma decimal_small: "n < 10 \<Longrightarrow> decimal n = [digit n]"
  by (subst decimal.simps) simp

lemma decimal_big: "\<not> n < 10 \<Longrightarrow> decimal n = decimal (n div 10) @ [digit (n mod 10)]"
  by (subst decimal.simps) simp

lemma decimal_nonempty: "decimal n \<noteq> []"
  by (cases "n < 10") (simp_all add: decimal_small decimal_big)

lemma decimal_inj: "decimal n = decimal m \<Longrightarrow> n = m"
proof (induction n arbitrary: m rule: decimal.induct)
  case (1 n)
  show ?case
  proof (cases "n < 10")
    case small: True
    show ?thesis
    proof (cases "m < 10")
      case True
      with "1.prems" small have "digit n = digit m" by (simp add: decimal_small)
      then show ?thesis using small True digit_inj by blast
    next
      case False
      with "1.prems" small have "decimal (m div 10) = []"
        by (simp add: decimal_small decimal_big)
      then show ?thesis using decimal_nonempty by blast
    qed
  next
    case big: False
    show ?thesis
    proof (cases "m < 10")
      case True
      with "1.prems" big have "decimal (n div 10) = []"
        by (simp add: decimal_small decimal_big)
      then show ?thesis using decimal_nonempty by blast
    next
      case False
      with "1.prems" big have a: "decimal (n div 10) = decimal (m div 10)"
        and b: "digit (n mod 10) = digit (m mod 10)"
        by (simp_all add: decimal_big)
      from a have "n div 10 = m div 10" using "1.IH" big by blast
      moreover from b have "n mod 10 = m mod 10" using digit_inj by simp
      ultimately show ?thesis by (metis div_mult_mod_eq)
    qed
  qed
qed

lemma decimal_zero: "decimal n = ''0'' \<longleftrightarrow> n = 0"
proof
  assume "decimal n = ''0''"
  moreover have "decimal 0 = ''0''" by (simp add: decimal_small digit_def)
  ultimately show "n = 0" using decimal_inj by metis
next
  assume "n = 0"
  then show "decimal n = ''0''" by (simp add: decimal_small digit_def)
qed

lemma rollout_name_completed: "rollout_name s = ''COMPLETED'' \<longleftrightarrow> s = COMPLETED"
  by (cases s) simp_all

lemma rollout_name_failed: "rollout_name s = ''FAILED'' \<longleftrightarrow> s = FAILED"
  by (cases s) simp_all

lemma converged_rendered:
  "converged (decimal r) (decimal d) (rollout_name s) \<longleftrightarrow> s = COMPLETED \<and> r = d \<and> 0 < d"
  using decimal_inj [of r d] decimal_zero [of d]
  by (auto simp: converged_def rollout_name_completed)

subsection \<open>The two poll loops, one tick at a time\<close>

lemma build_ticks_0: "build_ticks w cfg i 0 = []"
  by (simp add: build_ticks_def)

lemma build_ticks_Suc:
  "build_ticks w cfg i (Suc k) =
     [Run (build_probe w cfg), Echo (BuildStatusLine (snd (batch_get_builds w i))), Sleep 10]
       @ build_ticks w cfg (Suc i) k"
proof -
  have "[i..<i + Suc k] = i # [Suc i..<Suc i + k]"
    by (simp add: upt_conv_Cons del: upt_Suc)
  then show ?thesis by (simp add: build_ticks_def del: upt_Suc)
qed

lemma build_loop_pending_step:
  "build_pending w i \<Longrightarrow>
   build_loop w cfg i acc =
     build_loop w cfg (Suc i)
       (acc @ [Run (build_probe w cfg), Echo (BuildStatusLine (snd (batch_get_builds w i))), Sleep 10])"
  by (subst build_loop.simps) (simp add: build_pending_def Let_def)

lemma build_loop_pending:
  "(\<forall>j<k. build_pending w (i + j)) \<Longrightarrow>
   build_loop w cfg i acc = build_loop w cfg (i + k) (acc @ build_ticks w cfg i k)"
proof (induction k arbitrary: i acc)
  case 0
  show ?case by (simp add: build_ticks_0)
next
  case (Suc k)
  from Suc.prems have p0: "build_pending w i" by (metis add.right_neutral zero_less_Suc)
  from Suc.prems have rest: "\<forall>j<k. build_pending w (Suc i + j)" by auto
  show ?case
    using build_loop_pending_step [OF p0, of cfg acc] Suc.IH [OF rest]
    by (simp add: build_ticks_Suc)
qed

lemma build_loop_succeeded:
  "batch_get_builds w i = (0, ''SUCCEEDED'') \<Longrightarrow>
   build_loop w cfg i acc =
     Some (acc @ [Run (build_probe w cfg), Echo (BuildStatusLine ''SUCCEEDED''), Echo BuildCompleted],
           Continue)"
  by (subst build_loop.simps) (simp add: Let_def)

lemma build_loop_failure:
  "fst (batch_get_builds w i) = 0 \<Longrightarrow> build_failure (snd (batch_get_builds w i)) \<Longrightarrow>
   build_loop w cfg i acc =
     Some (acc @ [Run (build_probe w cfg),
                  Echo (BuildStatusLine (snd (batch_get_builds w i))),
                  Echo (BuildFailedWithStatus (snd (batch_get_builds w i))),
                  Echo (CheckBuildLogs (build_logs_url w cfg))], Exit 1)"
  by (subst build_loop.simps) (auto simp add: Let_def build_failure_def)

lemma deploy_ticks_0: "deploy_ticks w cfg i 0 = []"
  by (simp add: deploy_ticks_def)

lemma deploy_ticks_Suc:
  "deploy_ticks w cfg i (Suc k) =
     [Run (deploy_probe cfg), deploy_line w i, Sleep 10] @ deploy_ticks w cfg (Suc i) k"
proof -
  have "[i..<i + Suc k] = i # [Suc i..<Suc i + k]"
    by (simp add: upt_conv_Cons del: upt_Suc)
  then show ?thesis by (simp add: deploy_ticks_def del: upt_Suc)
qed

lemma deploy_loop_done:
  "DEPLOYMENT_COMPLETE \<or> \<not> ELAPSED_TIME < MAX_WAIT_TIME \<Longrightarrow>
   deploy_loop w cfg i DEPLOYMENT_COMPLETE ELAPSED_TIME = ([], Continue, DEPLOYMENT_COMPLETE, ELAPSED_TIME)"
  by (subst deploy_loop.simps) auto

lemma deploy_loop_pending_step:
  "deploy_pending w i \<Longrightarrow> e < MAX_WAIT_TIME \<Longrightarrow>
   deploy_loop w cfg i False e =
     ([Run (deploy_probe cfg), deploy_line w i, Sleep 10] @ fst (deploy_loop w cfg (Suc i) False (e + 10)),
      snd (deploy_loop w cfg (Suc i) False (e + 10)))"
  by (subst deploy_loop.simps) (simp add: deploy_pending_def deploy_line_def Let_def)

lemma deploy_loop_converged_step:
  "fst (describe_services w i) = 0 \<Longrightarrow>
   converged (fst (snd (describe_services w i))) (fst (snd (snd (describe_services w i))))
             (snd (snd (snd (describe_services w i)))) \<Longrightarrow> e < MAX_WAIT_TIME \<Longrightarrow>
   deploy_loop w cfg i False e =
     ([Run (deploy_probe cfg), deploy_line w i, Echo DeploymentCompleted, Sleep 10],
      Continue, True, e + 10)"
  by (subst deploy_loop.simps) (simp add: deploy_line_def Let_def deploy_loop_done)

lemma deploy_loop_failed_step:
  "fst (describe_services w i) = 0 \<Longrightarrow>
   \<not> converged (fst (snd (describe_services w i))) (fst (snd (snd (describe_services w i))))
             (snd (snd (snd (describe_services w i)))) \<Longrightarrow>
   snd (snd (snd (describe_services w i))) = ''FAILED'' \<Longrightarrow> e < MAX_WAIT_TIME \<Longrightarrow>
   deploy_loop w cfg i False e =
     ([Run (deploy_probe cfg), deploy_line w i, Echo DeploymentFailed], Exit 1, False, e)"
  by (subst deploy_loop.simps) (simp add: deploy_line_def Let_def)

lemma deploy_loop_error_step:
  "fst (describe_services w i) \<noteq> 0 \<Longrightarrow> e < MAX_WAIT_TIME \<Longrightarrow>
   deploy_loop w cfg i False e =
     ([Run (deploy_probe cfg)], Exit (fst (describe_services w i)), False, e)"
  by (subst deploy_loop.simps) (simp add: Let_def)

lemma deploy_loop_pending:
  "(\<forall>j<k. deploy_pending w (i + j)) \<Longrightarrow> e + 10 * k \<le> MAX_WAIT_TIME + 9 \<Longrightarrow>
   deploy_loop w cfg i False e =
     (deploy_ticks w cfg i k @ fst (deploy_loop w cfg (i + k) False (e + 10 * k)),
      snd (deploy_loop w cfg (i + k) False (e + 10 * k)))"
proof (induction k arbitrary: i e)
  case 0
  show ?case by (simp add: deploy_ticks_0)
next
  case (Suc k)
  from Suc.prems have p0: "deploy_pending w i" by (metis add.right_neutral zero_less_Suc)
  from Suc.prems have rest: "\<forall>j<k. deploy_pending w (Suc i + j)" by auto
  from Suc.prems have e: "e < MAX_WAIT_TIME" by simp
  from Suc.prems have e': "e + 10 + 10 * k \<le> MAX_WAIT_TIME + 9" by simp
  show ?case
    using deploy_loop_pending_step [OF p0 e, of cfg] Suc.IH [OF rest e']
    by (simp add: deploy_ticks_Suc add.assoc)
qed

subsection \<open>Sequences of commands, and the steps before the build loop\<close>

lemma exec_Continue:
  "snd c = Continue \<Longrightarrow> exec (c # cs) = (fst c @ fst (exec cs), snd (exec cs))"
  by (cases c) simp

lemma exec_Exit:
  "snd c = Exit rc \<Longrightarrow> exec (c # cs) = (fst c, Exit rc)"
  by (cases c) simp

lemma exec_events_subset: "set (fst (exec cs)) \<subseteq> (\<Union>c\<in>set cs. set (fst c))"
  by (induction cs rule: exec.induct) auto

lemma prelude_Continue: "prelude_ok w \<Longrightarrow> snd (prelude w cfg) = Continue"
  by (simp add: prelude_def prelude_steps_def prelude_ok_def echo_def run_def)

lemma prelude_runs:
  assumes "Run argv \<in> set (fst (prelude w cfg))"
  shows "\<not> is_ecs argv \<and> \<not> is_curl argv"
proof -
  from assms exec_events_subset have "Run argv \<in> (\<Union>c\<in>set
     (prelude_steps w cfg). set (fst c))"
    unfolding prelude_def by blast
  then show ?thesis
    by (auto simp: prelude_steps_def echo_def run_def is_ecs_def is_curl_def)
qed

lemma build_probe_kind: "\<not> is_ecs (build_probe w cfg) \<and> \<not> is_curl (build_probe w cfg)"
  by (simp add: build_probe_def is_ecs_def is_curl_def)

lemma build_ticks_runs:
  assumes "Run argv \<in> set (build_ticks w cfg i k)"
  shows "\<not> is_ecs argv \<and> \<not> is_curl argv"
proof -
  from assms have "argv = build_probe w cfg"
    by (auto simp: build_ticks_def split: if_splits)
  then show ?thesis using build_probe_kind by simp
qed

lemma main_build_failure:
  assumes "prelude_ok w" and "\<forall>j<k. build_pending w j"
    and "fst (batch_get_builds w k) = 0" and "build_failure (snd (batch_get_builds w k))"
  shows "main e w =
          Some (fst (prelude w (configuration e)) @ build_ticks w (configuration e) 0 k
                @ [Run (build_probe w (configuration e)),
                   Echo (BuildStatusLine (snd (batch_get_builds w k))),
                   Echo (BuildFailedWithStatus (snd (batch_get_builds w k))),
                   Echo (CheckBuildLogs (build_logs_url w (configuration e)))], 1)"
proof -
  have p: "snd (prelude w (configuration e)) = Continue"
    using assms(1) by (rule prelude_Continue)
  have "build_loop w (configuration e) 0 [] =
          build_loop w (configuration e) k (build_ticks w (configuration e) 0 k)"
    using build_loop_pending [of k w 0 "configuration e" "[]"] assms(2) by simp
  also have "\<dots> = Some (build_ticks w (configuration e) 0 k
                @ [Run (build_probe w (configuration e)),
                   Echo (BuildStatusLine (snd (batch_get_builds w k))),
                   Echo (BuildFailedWithStatus (snd (batch_get_builds w k))),
                   Echo (CheckBuildLogs (build_logs_url w (configuration e)))], Exit 1)"
    using assms(3,4) by (rule build_loop_failure)
  finally have b: "build_loop w (configuration e) 0 [] =
          Some (build_ticks w (configuration e) 0 k
                @ [Run (build_probe w (configuration e)),
                   Echo (BuildStatusLine (snd (batch_get_builds w k))),
                   Echo (BuildFailedWithStatus (snd (batch_get_builds w k))),
                   Echo (CheckBuildLogs (build_logs_url w (configuration e)))], Exit 1)" .
  obtain ev1 where ev1: "prelude w (configuration e) = (ev1, Continue)"
    using p by (cases "prelude w (configuration e)") auto
  show ?thesis by (simp add: main_def Let_def ev1 b)
qed

subsection \<open>The stages after the build loop\<close>

lemma health_stage_Continue: "snd (health_stage w) = Continue"
  by (simp add: health_stage_def echo_def sleep_def)

lemma health_stage_events:
  "fst (health_stage w) =
     [Echo Step8, Sleep 30, Run health_probe]
       @ (if HEALTH_CHECK w = ''healthy''
          then [Echo ServiceHealthy, Echo PipelineCompleted, Echo (ServiceEndpoint LOAD_BALANCER_URL)]
          else [Echo (HealthCheckReturned (HEALTH_CHECK w)), Echo MayStillBeStarting,
                Echo (CheckManually (LOAD_BALANCER_URL @ ''/health''))])"
  by (simp add: health_stage_def echo_def sleep_def)

lemma cleanup_Continue: "cleanup_ok w \<Longrightarrow> snd (cleanup w cfg) = Continue"
  by (simp add: cleanup_def cleanup_ok_def echo_def run_def)

lemma main_build_succeeded:
  assumes "prelude_ok w" and "build_succeeds_at w k"
  shows "main e w =
          Some (fst (prelude w (configuration e)) @ build_ticks w (configuration e) 0 k
                @ [Run (build_probe w (configuration e)), Echo (BuildStatusLine ''SUCCEEDED''),
                   Echo BuildCompleted]
                @ fst (after_build w (configuration e)),
                exit_code (snd (after_build w (configuration e))))"
proof -
  have p: "snd (prelude w (configuration e)) = Continue"
    using assms(1) by (rule prelude_Continue)
  have "build_loop w (configuration e) 0 [] =
          build_loop w (configuration e) k (build_ticks w (configuration e) 0 k)"
    using build_loop_pending [of k w 0 "configuration e" "[]"] assms(2)
    by (simp add: build_succeeds_at_def)
  also have "\<dots> = Some (build_ticks w (configuration e) 0 k
                @ [Run (build_probe w (configuration e)), Echo (BuildStatusLine ''SUCCEEDED''),
                   Echo BuildCompleted], Continue)"
    using assms(2) by (simp add: build_succeeds_at_def build_loop_succeeded)
  finally have b: "build_loop w (configuration e) 0 [] =
          Some (build_ticks w (configuration e) 0 k
                @ [Run (build_probe w (configuration e)), Echo (BuildStatusLine ''SUCCEEDED''),
                   Echo BuildCompleted], Continue)" .
  obtain ev1 where ev1: "prelude w (configuration e) = (ev1, Continue)"
    using p by (cases "prelude w (configuration e)") auto
  show ?thesis by (simp add: main_def Let_def ev1 b)
qed

lemma exec_single: "exec [c] = c"
proof (cases c)
  case (Pair ev f)
  then show ?thesis by (cases f) simp_all
qed

lemma after_build_triggered:
  assumes "update_service w = 0" and "snd (deploy_stage w cfg) = Continue"
  shows "after_build w cfg =
           ([Echo Step6, Run (deploy_trigger cfg), Echo ServiceUpdateInitiated,
             Echo Step7, Echo WaitingForTasks]
            @ fst (deploy_stage w cfg) @ fst (health_stage w) @ fst (cleanup w cfg),
            snd (cleanup w cfg))"
  using assms health_stage_Continue [of w]
  by (simp add: after_build_def echo_def run_def exec_Continue exec_single)

lemma main_reaches_health:
  assumes "reaches_deploy w k" and "snd (deploy_stage w (configuration e)) = Continue"
  shows "main e w =
          Some (before_deploy w (configuration e) k @ fst (deploy_stage w (configuration e))
                  @ fst (health_stage w) @ fst (cleanup w (configuration e)),
                exit_code (snd (cleanup w (configuration e))))"
  using assms main_build_succeeded [of w k e] after_build_triggered [of w "configuration e"]
  by (simp add: reaches_deploy_def before_deploy_def)

lemma deploy_loop_timeout:
  assumes "\<forall>j<60. deploy_pending w j"
  shows "deploy_loop w cfg 0 False 0 = (deploy_ticks w cfg 0 60, Continue, False, MAX_WAIT_TIME)"
proof -
  have "deploy_loop w cfg 0 False 0 =
     (deploy_ticks w cfg 0 60 @ fst (deploy_loop w cfg (0 + 60) False (0 + 10 * 60)),
      snd (deploy_loop w cfg (0 + 60) False (0 + 10 * 60)))"
    using assms by (intro deploy_loop_pending) (simp_all add: MAX_WAIT_TIME_def)
  moreover have "deploy_loop w cfg 60 False 600 = ([], Continue, False, 600)"
    by (rule deploy_loop_done) (simp add: MAX_WAIT_TIME_def)
  ultimately show ?thesis by (simp add: MAX_WAIT_TIME_def)
qed

lemma deploy_stage_timeout:
  assumes "\<forall>j<60. deploy_pending w j"
  shows "deploy_stage w cfg = (deploy_ticks w cfg 0 60 @ [Echo DeploymentTakingLonger], Continue)"
  by (simp add: deploy_stage_def deploy_loop_timeout [OF assms])

lemma count_runs_deploy_ticks: "count_runs (deploy_probe cfg) (deploy_ticks w cfg i k) = k"
  by (induction k arbitrary: i) (simp_all add: deploy_ticks_0 deploy_ticks_Suc count_runs_def deploy_line_def)

lemma total_sleep_deploy_ticks: "total_sleep (deploy_ticks w cfg i k) = 10 * k"
  by (induction k arbitrary: i) (simp_all add: deploy_ticks_0 deploy_ticks_Suc total_sleep_def deploy_line_def)

lemma deploy_loop_polls_and_sleep:
  "count_runs (deploy_probe cfg) (fst (deploy_loop w cfg i c e)) \<le> (MAX_WAIT_TIME + 9 - e) div 10
   \<and> total_sleep (fst (deploy_loop w cfg i c e)) \<le> 10 * ((MAX_WAIT_TIME + 9 - e) div 10)"
proof (induction w cfg i c e rule: deploy_loop.induct)
  case (1 w cfg i c e)
  show ?case
  proof (cases "\<not> c \<and> e < MAX_WAIT_TIME")
    case False
    then have "deploy_loop w cfg i c e = ([], Continue, c, e)"
      using deploy_loop_done [of c e w cfg i] by auto
    then show ?thesis by (simp add: count_runs_def total_sleep_def)
  next
    case True
    then have c: "c = False" and e: "e < MAX_WAIT_TIME" by simp_all
    have step: "(MAX_WAIT_TIME + 9 - e) div 10 = Suc ((MAX_WAIT_TIME + 9 - (e + 10)) div 10)"
      using e by (simp add: MAX_WAIT_TIME_def)
    show ?thesis
    proof (cases "fst (describe_services w i) = 0")
      case False
      then show ?thesis using deploy_loop_error_step [OF False e, of cfg] c step
        by (simp add: count_runs_def total_sleep_def)
    next
      case rc: True
      show ?thesis
      proof (cases "converged (fst (snd (describe_services w i)))
                (fst (snd (snd (describe_services w i))))
                (snd (snd (snd (describe_services w i))))")
        case True
        then show ?thesis using deploy_loop_converged_step [OF rc True e, of cfg] c step
          by (simp add: count_runs_def total_sleep_def deploy_line_def)
      next
        case nc: False
        show ?thesis
        proof (cases "snd (snd (snd (describe_services w i))) = ''FAILED''")
          case True
          then show ?thesis using deploy_loop_failed_step [OF rc nc True e, of cfg] c step
            by (simp add: count_runs_def total_sleep_def deploy_line_def)
        next
          case False
          have p: "deploy_pending w i" using rc nc False by (simp add: deploy_pending_def)
          have ih: "count_runs (deploy_probe cfg) (fst (deploy_loop w cfg (Suc i) c (e + 10)))
                      \<le> (MAX_WAIT_TIME + 9 - (e + 10)) div 10
                \<and> total_sleep (fst (deploy_loop w cfg (Suc i) c (e + 10)))
                      \<le> 10 * ((MAX_WAIT_TIME + 9 - (e + 10)) div 10)"
            using "1.IH"(2) [OF True refl refl refl refl refl _ nc False] rc by simp
          show ?thesis using deploy_loop_pending_step [OF p e, of cfg] c step ih
            by (simp add: count_runs_def total_sleep_def deploy_line_def)
        qed
      qed
    qed
  qed
qed

lemma command_subst_failed: "command_subst (out @ ''failed'' @ [CHR 0x0A]) = out @ ''failed''"
  by (simp add: command_subst_def)

lemma HEALTH_CHECK_jq_failed:
  assumes "fst (jq_status w (snd (curl_s (curl_health w)))) \<noteq> 0"
  shows "HEALTH_CHECK w = snd (jq_status w (snd (curl_s (curl_health w)))) @ ''failed''"
  using assms command_subst_failed [of "snd (jq_status w (snd (curl_s (curl_health w))))"]
  by (simp add: HEALTH_CHECK_def Let_def)

lemma failed_not_healthy: "out @ ''failed'' \<noteq> ''healthy''"
proof
  assume "out @ ''failed'' = ''healthy''"
  then have "last (out @ ''failed'') = last ''healthy''" by simp
  then show False by simp
qed

lemma deploy_stage_converges:
  assumes "\<forall>j<k. deploy_pending w j" and "10 * k < MAX_WAIT_TIME"
    and "fst (describe_services w k) = 0"
    and "converged (fst (snd (describe_services w k))) (fst (snd (snd (describe_services w k))))
             (snd (snd (snd (describe_services w k))))"
  shows "deploy_stage w cfg =
           (deploy_ticks w cfg 0 k
              @ [Run (deploy_probe cfg), deploy_line w k, Echo DeploymentCompleted, Sleep 10],
            Continue)"
proof -
  have "deploy_loop w cfg 0 False 0 =
     (deploy_ticks w cfg 0 k @ fst (deploy_loop w cfg (0 + k) False (0 + 10 * k)),
      snd (deploy_loop w cfg (0 + k) False (0 + 10 * k)))"
    using assms(1,2) by (intro deploy_loop_pending) simp_all
  moreover have "deploy_loop w cfg k False (10 * k) =
     ([Run (deploy_probe cfg), deploy_line w k, Echo DeploymentCompleted, Sleep 10],
      Continue, True, 10 * k + 10)"
    using assms(2,3,4) by (intro deploy_loop_converged_step)
  ultimately show ?thesis by (simp add: deploy_stage_def)
qed

lemma example_reaches_deploy: "reaches_deploy (example_world\<lparr>curl_health := h\<rparr>) 2"
  by (simp add: reaches_deploy_def prelude_ok_def build_succeeds_at_def build_pending_def
      build_failure_def example_world_def)

lemma example_cleanup_ok: "cleanup_ok (example_world\<lparr>curl_health := h\<rparr>)"
  by (simp add: cleanup_ok_def example_world_def)

lemma example_deploy_stage:
  "deploy_stage (example_world\<lparr>curl_health := h\<rparr>) cfg =
     (deploy_ticks (example_world\<lparr>curl_health := h\<rparr>) cfg 0 2
        @ [Run (deploy_probe cfg), Echo (DeploymentLine ''2'' ''2'' ''COMPLETED''),
           Echo DeploymentCompleted, Sleep 10],
      Continue)"
proof -
  let ?w = "example_world\<lparr>curl_health := h\<rparr>"
  have a: "\<forall>j<2. deploy_pending ?w j"
    by (simp add: deploy_pending_def converged_def example_world_def)
  have b: "10 * 2 < MAX_WAIT_TIME" by (simp add: MAX_WAIT_TIME_def)
  have c: "fst (describe_services ?w 2) = 0" by (simp add: example_world_def)
  have d: "converged (fst (snd (describe_services ?w 2))) (fst (snd (snd (describe_services ?w 2))))
             (snd (snd (snd (describe_services ?w 2))))"
    by (simp add: converged_def example_world_def)
  have l: "deploy_line ?w 2 = Echo (DeploymentLine ''2'' ''2'' ''COMPLETED'')"
    by (simp add: deploy_line_def example_world_def)
  show ?thesis using deploy_stage_converges [OF a b c d, of cfg] l by simp
qed

lemma example_stays_pending:
  "\<forall>j<60. deploy_pending
      (example_world\<lparr>describe_services := \<lambda>i. (0, ''1'', ''2'', ''IN_PROGRESS'')\<rparr>) j"
  by (simp add: deploy_pending_def converged_def)

lemma example_pending_reaches_deploy:
  "reaches_deploy (example_world\<lparr>describe_services := d\<rparr>) 2
   \<and> cleanup_ok (example_world\<lparr>describe_services := d\<rparr>)"
  by (simp add: reaches_deploy_def prelude_ok_def build_succeeds_at_def build_pending_def
      build_failure_def cleanup_ok_def example_world_def)

lemma scaled_to_zero_pending: "\<forall>j<60. deploy_pending scaled_to_zero_world j"
  by (simp add: scaled_to_zero_world_def deploy_pending_def converged_def)

subsection \<open>The HTTP requests of a run\<close>

lemma http_requests_append: "http_requests (a @ b) = http_requests a @ http_requests b"
  by (simp add: http_requests_def)

lemma http_requests_none:
  "(\<forall>argv. Run argv \<in> set ev \<longrightarrow> \<not> is_curl argv) \<Longrightarrow> http_requests ev = []"
  by (induction ev) (auto simp: http_requests_def split: event.splits)

lemma deploy_loop_runs:
  "Run argv \<in> set (fst (deploy_loop w cfg i c e)) \<Longrightarrow> argv = deploy_probe cfg"
proof (induction w cfg i c e rule: deploy_loop.induct)
  case (1 w cfg i c e)
  show ?case
  proof (cases "\<not> c \<and> e < MAX_WAIT_TIME")
    case False
    then have "deploy_loop w cfg i c e = ([], Continue, c, e)"
      using deploy_loop_done [of c e w cfg i] by auto
    then show ?thesis using "1.prems" by simp
  next
    case True
    then have c: "c = False" and e: "e < MAX_WAIT_TIME" by simp_all
    show ?thesis
    proof (cases "fst (describe_services w i) = 0")
      case False
      then show ?thesis using deploy_loop_error_step [OF False e, of cfg] c "1.prems" by simp
    next
      case rc: True
      show ?thesis
      proof (cases "converged (fst (snd (describe_services w i)))
                (fst (snd (snd (describe_services w i))))
                (snd (snd (snd (describe_services w i))))")
        case True
        then show ?thesis using deploy_loop_converged_step [OF rc True e, of cfg] c "1.prems"
          by (simp add: deploy_line_def)
      next
        case nc: False
        show ?thesis
        proof (cases "snd (snd (snd (describe_services w i))) = ''FAILED''")
          case True
          then show ?thesis using deploy_loop_failed_step [OF rc nc True e, of cfg] c "1.prems"
            by (simp add: deploy_line_def)
        next
          case False
          have p: "deploy_pending w i" using rc nc False by (simp add: deploy_pending_def)
          have ih: "Run argv \<in> set (fst (deploy_loop w cfg (Suc i) c (e + 10)))
                     \<Longrightarrow> argv = deploy_probe cfg"
            using "1.IH"(2) [OF True refl refl refl refl refl _ nc False] rc by simp
          show ?thesis using deploy_loop_pending_step [OF p e, of cfg] c ih "1.prems"
            by (auto simp: deploy_line_def)
        qed
      qed
    qed
  qed
qed

lemma deploy_probe_kind: "\<not> is_curl (deploy_probe cfg)"
  by (simp add: deploy_probe_def is_curl_def)

lemma deploy_stage_runs:
  assumes "Run argv \<in> set (fst (deploy_stage w cfg))"
  shows "\<not> is_curl argv"
proof -
  from assms have "Run argv \<in> set (fst (deploy_loop w cfg 0 False 0))"
    by (auto simp: deploy_stage_def split: prod.splits flow.splits if_splits)
  then show ?thesis using deploy_loop_runs deploy_probe_kind by metis
qed

lemma cleanup_runs:
  assumes "Run argv \<in> set (fst (cleanup w cfg))"
  shows "\<not> is_curl argv"
proof -
  from assms exec_events_subset have "Run argv \<in> (\<Union>c\<in>set
     [ run [''rm'', ''-rf'', TEMP_DIR w] (rm_rf w),
       run [''cd'', ''..''] (cd_up w),
       echo SummaryHeader,
       echo SummaryImageBuilt,
       echo SummaryServiceUpdated,
       echo (SummaryEndpoint LOAD_BALANCER_URL),
       echo SummaryBlank,
       echo SummaryNextSteps,
       echo (SummaryTestEndpoint LOAD_BALANCER_URL),
       echo (SummaryMonitorLogs (AWS_PROFILE cfg)) ]. set (fst c))"
    unfolding cleanup_def by blast
  then show ?thesis by (auto simp: echo_def run_def is_curl_def)
qed

lemma before_deploy_runs:
  assumes "Run argv \<in> set (before_deploy w cfg k)"
  shows "\<not> is_curl argv"
  using assms build_probe_kind [of w cfg]
  by (auto simp: before_deploy_def deploy_trigger_def is_curl_def
      dest: prelude_runs build_ticks_runs)

lemma health_probe_kind: "is_curl health_probe"
  by (simp add: health_probe_def is_curl_def)

lemma http_requests_health_stage: "http_requests (fst (health_stage w)) = [health_probe]"
  using health_probe_kind by (simp add: health_stage_events http_requests_def)

lemma request_timeout_health_probe: "request_timeout health_probe = None"
  by (simp add: request_timeout_def health_probe_def LOAD_BALANCER_URL_def)

subsection \<open>The claims about the poll loops\<close>

text \<open>
  C1. Take any deployment status and a poll of the loop that reads it. The loop treats
  the status as converged, that is: it prints the completion line, sets
  \<^verbatim>\<open>DEPLOYMENT_COMPLETE\<close> and ends the wait with no further poll, if and only if the
  rollout state is \<open>COMPLETED\<close>, the running count equals the desired count, and the
  desired count is positive. On every other status the flag is not set: the loop exits
  with status 1 when the rollout state is \<open>FAILED\<close>, and otherwise sleeps and starts the
  next iteration with \<^verbatim>\<open>DEPLOYMENT_COMPLETE\<close> still false. The witness reads the two
  statuses the claim names: 2 of 2 completed ends the wait at once; with 0 of 0
  completed the loop polls on, and when every poll reads it the loop times out with the
  flag false and the stage prints the warning.
\<close>

theorem deployment_converged_iff:
  assumes probe: "describe_services w i = (0, rendered ds)"
    and time: "ELAPSED_TIME < MAX_WAIT_TIME"
  shows "(deploy_loop w cfg i False ELAPSED_TIME =
            ([Run (deploy_probe cfg), deploy_line w i, Echo DeploymentCompleted, Sleep 10],
             Continue, True, ELAPSED_TIME + 10)
          \<longleftrightarrow> rolloutState ds = COMPLETED \<and> runningCount ds = desiredCount ds
                \<and> 0 < desiredCount ds)
         \<and> deploy_loop w cfg i False ELAPSED_TIME =
             (if rolloutState ds = COMPLETED \<and> runningCount ds = desiredCount ds
                 \<and> 0 < desiredCount ds
              then ([Run (deploy_probe cfg), deploy_line w i, Echo DeploymentCompleted, Sleep 10],
                    Continue, True, ELAPSED_TIME + 10)
              else if rolloutState ds = FAILED
              then ([Run (deploy_probe cfg), deploy_line w i, Echo DeploymentFailed],
                    Exit 1, False, ELAPSED_TIME)
              else ([Run (deploy_probe cfg), deploy_line w i, Sleep 10]
                      @ fst (deploy_loop w cfg (Suc i) False (ELAPSED_TIME + 10)),
                    snd (deploy_loop w cfg (Suc i) False (ELAPSED_TIME + 10))))"
proof -
  have rc: "fst (describe_services w i) = 0" using probe by simp
  have conv: "converged (fst (snd (describe_services w i)))
                (fst (snd (snd (describe_services w i))))
                (snd (snd (snd (describe_services w i))))
              \<longleftrightarrow> rolloutState ds = COMPLETED \<and> runningCount ds = desiredCount ds
                    \<and> 0 < desiredCount ds"
    using probe by (simp add: rendered_def converged_rendered)
  have failed: "snd (snd (snd (describe_services w i))) = ''FAILED'' \<longleftrightarrow> rolloutState ds = FAILED"
    using probe by (simp add: rendered_def rollout_name_failed)
  show ?thesis
  proof (cases "rolloutState ds = COMPLETED \<and> runningCount ds = desiredCount ds
                \<and> 0 < desiredCount ds")
    case True
    then show ?thesis using deploy_loop_converged_step [OF rc _ time] conv by simp
  next
    case no: False
    show ?thesis
    proof (cases "rolloutState ds = FAILED")
      case True
      then show ?thesis using deploy_loop_failed_step [OF rc _ _ time] conv no failed by simp
    next
      case False
      then have "deploy_pending w i" using rc conv no failed by (simp add: deploy_pending_def)
      then show ?thesis using deploy_loop_pending_step [OF _ time] no False by simp
    qed
  qed
qed

theorem deployment_converged_iff_witness:
  "deploy_loop converged_at_once_world (configuration empty_env) 0 False 0 =
     ([Run (deploy_probe (configuration empty_env)),
       Echo (DeploymentLine ''2'' ''2'' ''COMPLETED''), Echo DeploymentCompleted, Sleep 10],
      Continue, True, 10)
   \<and> deploy_loop scaled_to_zero_world (configuration empty_env) 0 False 0 =
       ([Run (deploy_probe (configuration empty_env)),
         Echo (DeploymentLine ''0'' ''0'' ''COMPLETED''), Sleep 10]
          @ fst (deploy_loop scaled_to_zero_world (configuration empty_env) 1 False 10),
        snd (deploy_loop scaled_to_zero_world (configuration empty_env) 1 False 10))
   \<and> deploy_loop scaled_to_zero_world (configuration empty_env) 0 False 0 =
       (deploy_ticks scaled_to_zero_world (configuration empty_env) 0 60,
        Continue, False, 600)
   \<and> deploy_stage scaled_to_zero_world (configuration empty_env) =
       (deploy_ticks scaled_to_zero_world (configuration empty_env) 0 60
          @ [Echo DeploymentTakingLonger], Continue)"
  using deployment_converged_iff
      [of converged_at_once_world 0
          "\<lparr>runningCount = 2, desiredCount = 2, rolloutState = COMPLETED\<rparr>" 0
          "configuration empty_env"]
    deployment_converged_iff
      [of scaled_to_zero_world 0
          "\<lparr>runningCount = 0, desiredCount = 0, rolloutState = COMPLETED\<rparr>" 0
          "configuration empty_env"]
    deploy_loop_timeout [OF scaled_to_zero_pending, of "configuration empty_env"]
    deploy_stage_timeout [OF scaled_to_zero_pending, of "configuration empty_env"]
  by (simp add: converged_at_once_world_def scaled_to_zero_world_def rendered_def
      decimal_small digit_def MAX_WAIT_TIME_def deploy_line_def)

text \<open>
  C2. When the first terminal build status is one of \<open>FAILED\<close>, \<open>FAULT\<close>,
  \<open>TIMED_OUT\<close>, \<open>STOPPED\<close>, the run ends with exit status 1, its last two lines are
  the failing status and the address of the build logs, and nothing of the later
  stages has happened: no command of the container service (neither the
  \<^verbatim>\<open>update-service\<close> trigger nor a \<^verbatim>\<open>describe-services\<close> poll), no HTTP request,
  and none of the headings of steps 6 to 8.
\<close>

theorem build_failure_halts:
  assumes "prelude_ok w" and "\<forall>j<k. build_pending w j"
    and "fst (batch_get_builds w k) = 0" and "build_failure (snd (batch_get_builds w k))"
  shows "\<exists>tr. main e w =
            Some (tr @ [Echo (BuildFailedWithStatus (snd (batch_get_builds w k))),
                        Echo (CheckBuildLogs (build_logs_url w (configuration e)))], 1)
          \<and> (\<forall>argv. Run argv \<in> set tr \<longrightarrow> \<not> is_ecs argv \<and> \<not> is_curl argv)
          \<and> Echo Step6 \<notin> set tr \<and> Echo Step7 \<notin> set tr \<and> Echo Step8 \<notin> set tr"
proof -
  let ?cfg = "configuration e"
  let ?tr = "fst (prelude w ?cfg) @ build_ticks w ?cfg 0 k
                @ [Run (build_probe w ?cfg), Echo (BuildStatusLine (snd (batch_get_builds w k)))]"
  have m: "main e w =
            Some (?tr @ [Echo (BuildFailedWithStatus (snd (batch_get_builds w k))),
                        Echo (CheckBuildLogs (build_logs_url w ?cfg))], 1)"
    using main_build_failure [OF assms] by simp
  have r: "\<forall>argv. Run argv \<in> set ?tr \<longrightarrow> \<not> is_ecs argv \<and> \<not> is_curl argv"
    using build_probe_kind [of w ?cfg]
    by (auto dest: prelude_runs build_ticks_runs)
  have "\<forall>m. Echo m \<in> set (fst (prelude w ?cfg)) \<longrightarrow> m \<noteq> Step6 \<and> m \<noteq> Step7 \<and> m \<noteq> Step8"
    using exec_events_subset [of "prelude_steps w ?cfg"]
    unfolding prelude_def by (auto simp: prelude_steps_def echo_def run_def)
  then have s: "Echo Step6 \<notin> set ?tr \<and> Echo Step7 \<notin> set ?tr \<and> Echo Step8 \<notin> set ?tr"
    by (auto simp: build_ticks_def split: if_splits)
  from m r s show ?thesis by blast
qed

theorem build_failure_halts_witness:
  "prelude_ok build_timed_out_world
   \<and> build_pending build_timed_out_world 0 \<and> build_pending build_timed_out_world 1
   \<and> batch_get_builds build_timed_out_world 2 = (0, ''TIMED_OUT'')
   \<and> (\<exists>tr. main empty_env build_timed_out_world =
            Some (tr @ [Echo (BuildFailedWithStatus ''TIMED_OUT''),
                        Echo (CheckBuildLogs
                          ''https://console.aws.amazon.com/codesuite/codebuild/projects/deepseek-ocr-docker-build/build/deepseek-ocr-docker-build:7c1e'')], 1)
          \<and> (\<forall>argv. Run argv \<in> set tr \<longrightarrow> \<not> is_ecs argv \<and> \<not> is_curl argv)
          \<and> Echo Step6 \<notin> set tr \<and> Echo Step7 \<notin> set tr \<and> Echo Step8 \<notin> set tr)"
proof -
  let ?w = build_timed_out_world
  have a: "prelude_ok ?w"
    by (simp add: build_timed_out_world_def prelude_ok_def example_world_def)
  have b: "\<forall>j<2. build_pending ?w j"
    by (simp add: build_timed_out_world_def build_pending_def build_failure_def)
  have c: "fst (batch_get_builds ?w 2) = 0" by (simp add: build_timed_out_world_def)
  have d: "build_failure (snd (batch_get_builds ?w 2))"
    by (simp add: build_timed_out_world_def build_failure_def)
  have s: "batch_get_builds ?w 2 = (0, ''TIMED_OUT'')" by (simp add: build_timed_out_world_def)
  have u: "build_logs_url ?w (configuration empty_env) =
      ''https://console.aws.amazon.com/codesuite/codebuild/projects/deepseek-ocr-docker-build/build/deepseek-ocr-docker-build:7c1e''"
    by (simp add: build_timed_out_world_def build_logs_url_def configuration_def BUILD_ID_def
        after_last_slash_def example_world_def)
  show ?thesis using a b s build_failure_halts [OF a b c d, of empty_env] u by simp
qed

text \<open>
  C3. When the run reaches the deployment loop and none of its 60 polls gives a verdict
  (each answers, none is converged, none reports \<open>FAILED\<close>), the loop ends after
  600 seconds of sleep, the warning of line 130 is printed, the health check stage runs
  with its HTTP request, and, the cleanup commands succeeding, the exit status is 0.
\<close>

theorem deploy_timeout_advisory:
  assumes "reaches_deploy w k" and "\<forall>j<60. deploy_pending w j" and "cleanup_ok w"
  shows "main e w =
           Some (before_deploy w (configuration e) k @ deploy_ticks w (configuration e) 0 60
                   @ [Echo DeploymentTakingLonger]
                   @ fst (health_stage w) @ fst (cleanup w (configuration e)), 0)
         \<and> Run health_probe \<in> set (fst (health_stage w))"
  using main_reaches_health [OF assms(1), of e] deploy_stage_timeout [OF assms(2), of "configuration e"]
    cleanup_Continue [OF assms(3), of "configuration e"]
  by (simp add: health_stage_events)

theorem deploy_timeout_advisory_witness:
  "reaches_deploy stalled_world 2
   \<and> deploy_pending stalled_world 0 \<and> deploy_pending stalled_world 59
   \<and> cleanup_ok stalled_world
   \<and> main empty_env stalled_world =
       Some (before_deploy stalled_world (configuration empty_env) 2
             @ deploy_ticks stalled_world (configuration empty_env) 0 60
             @ [Echo DeploymentTakingLonger]
             @ fst (health_stage stalled_world)
             @ fst (cleanup stalled_world (configuration empty_env)), 0)
   \<and> Run health_probe \<in> set (fst (health_stage stalled_world))"
proof -
  have r: "reaches_deploy stalled_world 2" and c: "cleanup_ok stalled_world"
    unfolding stalled_world_def using example_pending_reaches_deploy by simp_all
  have p: "\<forall>j<60. deploy_pending stalled_world j"
    unfolding stalled_world_def by (rule example_stays_pending)
  show ?thesis using r c p deploy_timeout_advisory [OF r p c, of empty_env] by simp
qed

text \<open>
  C4. The deployment loop always ends: in every world it makes at most
  \<open>(MAX_WAIT_TIME + 9) div 10 = 60\<close> polls and sleeps at most \<open>MAX_WAIT_TIME\<close>
  seconds. When no poll gives a verdict it ends by timeout, with
  \<^verbatim>\<open>DEPLOYMENT_COMPLETE\<close> still false, after exactly 60 polls and 600 seconds, and
  the stage prints the warning. (The loop is a total function, so it returns.)
\<close>

theorem deploy_loop_bounded:
  "count_runs (deploy_probe cfg) (fst (deploy_loop w cfg 0 False 0)) \<le> (MAX_WAIT_TIME + 9) div 10
   \<and> (MAX_WAIT_TIME + 9) div 10 = 60
   \<and> total_sleep (fst (deploy_loop w cfg 0 False 0)) \<le> MAX_WAIT_TIME
   \<and> ((\<forall>j<60. deploy_pending w j) \<longrightarrow>
        deploy_loop w cfg 0 False 0 = (deploy_ticks w cfg 0 60, Continue, False, MAX_WAIT_TIME)
        \<and> deploy_stage w cfg = (deploy_ticks w cfg 0 60 @ [Echo DeploymentTakingLonger], Continue)
        \<and> count_runs (deploy_probe cfg) (deploy_ticks w cfg 0 60) = 60
        \<and> total_sleep (deploy_ticks w cfg 0 60) = MAX_WAIT_TIME)"
  using deploy_loop_polls_and_sleep [of cfg w 0 False 0] deploy_loop_timeout [of w cfg]
    deploy_stage_timeout [of w cfg]
  by (simp add: MAX_WAIT_TIME_def count_runs_deploy_ticks total_sleep_deploy_ticks)

theorem deploy_loop_bounded_witness:
  "deploy_pending stalled_world 0 \<and> deploy_pending stalled_world 59
   \<and> deploy_loop stalled_world (configuration empty_env) 0 False 0 =
       (deploy_ticks stalled_world (configuration empty_env) 0 60, Continue, False, 600)
   \<and> count_runs (deploy_probe (configuration empty_env))
        (fst (deploy_loop stalled_world (configuration empty_env) 0 False 0)) = 60
   \<and> total_sleep (fst (deploy_loop stalled_world (configuration empty_env) 0 False 0)) = 600"
proof -
  have p: "\<forall>j<60. deploy_pending stalled_world j"
    unfolding stalled_world_def by (rule example_stays_pending)
  show ?thesis
    using p deploy_loop_bounded [of "configuration empty_env" stalled_world]
    by (simp add: MAX_WAIT_TIME_def)
qed

text \<open>
  C5. The build loop leaves at once on a terminal status (\<open>build_loop_succeeded\<close>,
  \<open>build_loop_failure\<close>) and the deployment loop exits at once on \<open>FAILED\<close>
  (\<open>deploy_loop_failed_step\<close>): no sleep and no poll follows the verdict. On
  convergence the deployment loop only sets its flag, so the \<^verbatim>\<open>sleep 10\<close> at the end
  of the loop body still runs before the loop test ends the wait. Here the first poll
  finds 2 of 2 tasks running and the rollout completed: a sleep of 10 seconds follows
  the completion line, and \<^verbatim>\<open>ELAPSED_TIME\<close> is 10 when the stage returns.
\<close>

theorem deploy_converged_then_sleeps:
  "deploy_loop converged_at_once_world (configuration empty_env) 0 False 0 =
     ([Run (deploy_probe (configuration empty_env)),
       Echo (DeploymentLine ''2'' ''2'' ''COMPLETED''), Echo DeploymentCompleted, Sleep 10],
      Continue, True, 10)"
  by (subst deploy_loop.simps)
     (simp add: converged_at_once_world_def MAX_WAIT_TIME_def converged_def Let_def
        deploy_loop_done)

subsection \<open>The claims about the health check\<close>

text \<open>
  C6, as amended. The health check never ends the script, whatever the HTTP GET meets.
  Whenever the string the script extracts is not exactly \<open>healthy\<close> only the warning
  lines are printed, and this is so whenever \<^verbatim>\<open>jq\<close> fails on what \<^verbatim>\<open>curl\<close> wrote
  (the string then ends in \<open>failed\<close>). When the run reaches the deployment loop, the
  deployment stage ends without exit (converged or timed out) and the cleanup commands
  succeed, the exit status is 0 for every health outcome.
\<close>

theorem health_check_advisory:
  "snd (health_stage w) = Continue
   \<and> (HEALTH_CHECK w \<noteq> ''healthy'' \<longrightarrow>
        fst (health_stage w) =
          [Echo Step8, Sleep 30, Run health_probe,
           Echo (HealthCheckReturned (HEALTH_CHECK w)), Echo MayStillBeStarting,
           Echo (CheckManually (LOAD_BALANCER_URL @ ''/health''))])
   \<and> (fst (jq_status w (snd (curl_s (curl_health w)))) \<noteq> 0 \<longrightarrow>
        HEALTH_CHECK w = snd (jq_status w (snd (curl_s (curl_health w)))) @ ''failed''
        \<and> HEALTH_CHECK w \<noteq> ''healthy'')
   \<and> (reaches_deploy w k \<and> snd (deploy_stage w (configuration e)) = Continue \<and> cleanup_ok w \<longrightarrow>
        main e w =
          Some (before_deploy w (configuration e) k @ fst (deploy_stage w (configuration e))
                  @ fst (health_stage w) @ fst (cleanup w (configuration e)), 0))"
  using main_reaches_health [of w k e] cleanup_Continue [of w "configuration e"]
    HEALTH_CHECK_jq_failed [of w] failed_not_healthy
  by (simp add: health_stage_Continue health_stage_events)

theorem health_check_advisory_witness:
  "fst (jq_status error_page_world (snd (curl_s (curl_health error_page_world)))) = 2
   \<and> HEALTH_CHECK error_page_world = ''failed''
   \<and> fst (health_stage error_page_world) =
          [Echo Step8, Sleep 30, Run health_probe,
           Echo (HealthCheckReturned ''failed''), Echo MayStillBeStarting,
           Echo (CheckManually (LOAD_BALANCER_URL @ ''/health''))]
   \<and> reaches_deploy error_page_world 2
   \<and> snd (deploy_stage error_page_world (configuration empty_env)) = Continue
   \<and> cleanup_ok error_page_world
   \<and> main empty_env error_page_world =
       Some (before_deploy error_page_world (configuration empty_env) 2
             @ fst (deploy_stage error_page_world (configuration empty_env))
             @ fst (health_stage error_page_world)
             @ fst (cleanup error_page_world (configuration empty_env)), 0)"
proof -
  let ?w = error_page_world
  have j: "fst (jq_status ?w (snd (curl_s (curl_health ?w)))) = 2"
    by (simp add: error_page_world_def example_world_def example_jq_def healthy_body_def)
  have o: "snd (jq_status ?w (snd (curl_s (curl_health ?w)))) = []"
    by (simp add: error_page_world_def example_world_def example_jq_def healthy_body_def)
  have d: "snd (deploy_stage ?w (configuration empty_env)) = Continue"
    by (simp add: error_page_world_def example_deploy_stage)
  have r: "reaches_deploy ?w 2"
    unfolding error_page_world_def by (rule example_reaches_deploy)
  have c: "cleanup_ok ?w"
    unfolding error_page_world_def by (rule example_cleanup_ok)
  show ?thesis
    using health_check_advisory [of ?w 2 empty_env] j o d r c by simp
qed

text \<open>
  The claim as stated fails for a response that is not 2xx: \<^verbatim>\<open>curl\<close> runs without
  \<^verbatim>\<open>--fail\<close>, the script never sees the status code, and a 500 response whose body
  has status \<open>healthy\<close> is reported as healthy, with no warning.
\<close>

theorem health_check_status_500_counterexample:
  "curl_health healthy_500_world = Response 500 healthy_body
   \<and> HEALTH_CHECK healthy_500_world = ''healthy''
   \<and> fst (health_stage healthy_500_world) =
       [Echo Step8, Sleep 30, Run health_probe,
        Echo ServiceHealthy, Echo PipelineCompleted, Echo (ServiceEndpoint LOAD_BALANCER_URL)]"
proof -
  have h: "HEALTH_CHECK healthy_500_world = ''healthy''"
    by (simp add: healthy_500_world_def HEALTH_CHECK_def example_world_def example_jq_def
        command_subst_def)
  show ?thesis using h by (simp add: health_stage_events) (simp add: healthy_500_world_def)
qed

text \<open>
  C7, as amended. In a run that reaches the deployment loop and whose deployment stage
  ends without exit (converged or timed out), the stage is followed by the heading of
  step 8, a sleep of 30 seconds and then the HTTP request; the run makes exactly one
  HTTP request, \<^verbatim>\<open>curl -s\<close> on the \<^verbatim>\<open>/health\<close> address of the load balancer, and
  its command line sets no request timeout.
\<close>

theorem health_probe_once_after_settle:
  assumes "reaches_deploy w k" and "snd (deploy_stage w (configuration e)) = Continue"
  shows "(\<exists>rest rc. main e w =
            Some (before_deploy w (configuration e) k @ fst (deploy_stage w (configuration e))
                    @ [Echo Step8, Sleep 30, Run health_probe] @ rest, rc))
         \<and> map_option (http_requests \<circ> fst) (main e w) = Some [health_probe]
         \<and> health_probe = [''curl'', ''-s'', LOAD_BALANCER_URL @ ''/health'']
         \<and> request_timeout health_probe = None"
proof -
  let ?cfg = "configuration e"
  have m: "main e w =
          Some (before_deploy w ?cfg k @ fst (deploy_stage w ?cfg)
                  @ fst (health_stage w) @ fst (cleanup w ?cfg),
                exit_code (snd (cleanup w ?cfg)))"
    using assms by (rule main_reaches_health)
  have a: "http_requests (before_deploy w ?cfg k) = []"
    by (rule http_requests_none) (auto dest: before_deploy_runs)
  have b: "http_requests (fst (deploy_stage w ?cfg)) = []"
    by (rule http_requests_none) (auto dest: deploy_stage_runs)
  have c: "http_requests (fst (cleanup w ?cfg)) = []"
    by (rule http_requests_none) (auto dest: cleanup_runs)
  have one: "map_option (http_requests \<circ> fst) (main e w) = Some [health_probe]"
    using m a b c by (simp add: http_requests_append http_requests_health_stage)
  have first: "\<exists>rest rc. main e w =
            Some (before_deploy w ?cfg k @ fst (deploy_stage w ?cfg)
                    @ [Echo Step8, Sleep 30, Run health_probe] @ rest, rc)"
    using m by (simp add: health_stage_events)
  show ?thesis using first one request_timeout_health_probe by (simp add: health_probe_def)
qed

theorem health_probe_once_after_settle_witness:
  "reaches_deploy example_world 2
   \<and> snd (deploy_stage example_world (configuration empty_env)) = Continue
   \<and> (\<exists>rest rc. main empty_env example_world =
            Some (before_deploy example_world (configuration empty_env) 2
                    @ fst (deploy_stage example_world (configuration empty_env))
                    @ [Echo Step8, Sleep 30, Run health_probe] @ rest, rc))
   \<and> map_option (http_requests \<circ> fst) (main empty_env example_world) = Some [health_probe]
   \<and> request_timeout health_probe = None"
proof -
  have w: "example_world\<lparr>curl_health := Response 200 healthy_body\<rparr> = example_world"
    by (simp add: example_world_def)
  have r: "reaches_deploy example_world 2"
    using example_reaches_deploy [of "Response 200 healthy_body"] w by simp
  have d: "snd (deploy_stage example_world (configuration empty_env)) = Continue"
    using example_deploy_stage [of "Response 200 healthy_body" "configuration empty_env"] w
    by simp
  show ?thesis using r d health_probe_once_after_settle [OF r d] by simp
qed

text \<open>
  The claim as stated fails on the timeout: in the concrete run the one HTTP request
  has no request timeout, where the claim has 10 seconds.
\<close>

theorem health_probe_timeout_counterexample:
  "map_option (map request_timeout \<circ> http_requests \<circ> fst) (main empty_env example_world)
     = Some [None]"
proof -
  have w: "example_world\<lparr>curl_health := Response 200 healthy_body\<rparr> = example_world"
    by (simp add: example_world_def)
  have r: "reaches_deploy example_world 2"
    using example_reaches_deploy [of "Response 200 healthy_body"] w by simp
  have d: "snd (deploy_stage example_world (configuration empty_env)) = Continue"
    using example_deploy_stage [of "Response 200 healthy_body" "configuration empty_env"] w
    by simp
  let ?cfg = "configuration empty_env"
  have m: "main empty_env example_world =
          Some (before_deploy example_world ?cfg 2 @ fst (deploy_stage example_world ?cfg)
                  @ fst (health_stage example_world) @ fst (cleanup example_world ?cfg),
                exit_code (snd (cleanup example_world ?cfg)))"
    using r d by (rule main_reaches_health)
  have a: "http_requests (before_deploy example_world ?cfg 2) = []"
    by (rule http_requests_none) (auto dest: before_deploy_runs)
  have b: "http_requests (fst (deploy_stage example_world ?cfg)) = []"
    by (rule http_requests_none) (auto dest: deploy_stage_runs)
  have c: "http_requests (fst (cleanup example_world ?cfg)) = []"
    by (rule http_requests_none) (auto dest: cleanup_runs)
  show ?thesis
    using m a b c
    by (simp add: http_requests_append http_requests_health_stage request_timeout_health_probe)
qed

subsection \<open>The claim about the configuration\<close>

text \<open>
  C8, as amended. Region, account and profile are read from \<^verbatim>\<open>AWS_REGION\<close>,
  \<^verbatim>\<open>AWS_ACCOUNT_ID\<close> and \<^verbatim>\<open>AWS_PROFILE\<close>, each with a default that is used when the
  variable is unset or empty; project name, bucket, key, cluster and service are fixed
  values that no variable changes (and so is \<open>LOAD_BALANCER_URL\<close>, a constant). No
  value is required: in every environment the run starts with \<^verbatim>\<open>cd docker\<close>, and
  whether steps 1 to 4 end the script is the same as with no variable set.
\<close>

theorem configuration_defaults:
  "configuration e =
     \<lparr> PROJECT_NAME = ''deepseek-ocr-docker-build'',
       AWS_REGION = (case e ''AWS_REGION'' of None \<Rightarrow> ''us-east-1''
                     | Some v \<Rightarrow> if v = [] then ''us-east-1'' else v),
       AWS_ACCOUNT_ID = (case e ''AWS_ACCOUNT_ID'' of None \<Rightarrow> ''098305555551''
                     | Some v \<Rightarrow> if v = [] then ''098305555551'' else v),
       AWS_PROFILE = (case e ''AWS_PROFILE'' of None \<Rightarrow> ''miketran+SA''
                     | Some v \<Rightarrow> if v = [] then ''miketran+SA'' else v),
       S3_BUCKET = ''dev-deepseek-ocr-files-bucket'',
       S3_KEY = ''codebuild-source/docker-source.zip'',
       ECS_CLUSTER = ''dev-deepseek-ocr-gpu-cluster'',
       ECS_SERVICE = ''dev-deepseek-ocr-gpu-service'' \<rparr>
   \<and> take 3 (fst (prelude w (configuration e))) =
       [Echo Starting, Echo Step1, Run [''cd'', ''docker'']]
   \<and> snd (prelude w (configuration e)) = snd (prelude w (configuration empty_env))"
  by (simp add: configuration_def param_default_def prelude_def prelude_steps_def
      echo_def run_def)

text \<open>
  The claim as stated fails: with no variable set at all, the concrete run is not
  stopped at startup; it goes on to the HTTP request of the health check and ends with
  exit status 0.
\<close>

theorem missing_environment_counterexample:
  "empty_env ''AWS_REGION'' = None \<and> empty_env ''AWS_ACCOUNT_ID'' = None
   \<and> empty_env ''AWS_PROFILE'' = None \<and> empty_env ''S3_BUCKET'' = None
   \<and> empty_env ''ECS_CLUSTER'' = None \<and> empty_env ''LOAD_BALANCER_URL'' = None
   \<and> map_option snd (main empty_env example_world) = Some 0
   \<and> map_option (http_requests \<circ> fst) (main empty_env example_world) = Some [health_probe]"
proof -
  have w: "example_world\<lparr>curl_health := Response 200 healthy_body\<rparr> = example_world"
    by (simp add: example_world_def)
  have r: "reaches_deploy example_world 2"
    using example_reaches_deploy [of "Response 200 healthy_body"] w by simp
  have d: "snd (deploy_stage example_world (configuration empty_env)) = Continue"
    using example_deploy_stage [of "Response 200 healthy_body" "configuration empty_env"] w
    by simp
  have c: "cleanup_ok example_world"
    using example_cleanup_ok [of "Response 200 healthy_body"] w by simp
  let ?cfg = "configuration empty_env"
  have m: "main empty_env example_world =
          Some (before_deploy example_world ?cfg 2 @ fst (deploy_stage example_world ?cfg)
                  @ fst (health_stage example_world) @ fst (cleanup example_world ?cfg),
                exit_code (snd (cleanup example_world ?cfg)))"
    using r d by (rule main_reaches_health)
  have a: "http_requests (before_deploy example_world ?cfg 2) = []"
    by (rule http_requests_none) (auto dest: before_deploy_runs)
  have b: "http_requests (fst (deploy_stage example_world ?cfg)) = []"
    by (rule http_requests_none) (auto dest: deploy_stage_runs)
  have k: "http_requests (fst (cleanup example_world ?cfg)) = []"
    by (rule http_requests_none) (auto dest: cleanup_runs)
  have e: "empty_env ''AWS_REGION'' = None \<and> empty_env ''AWS_ACCOUNT_ID'' = None
   \<and> empty_env ''AWS_PROFILE'' = None \<and> empty_env ''S3_BUCKET'' = None
   \<and> empty_env ''ECS_CLUSTER'' = None \<and> empty_env ''LOAD_BALANCER_URL'' = None"
    by (simp add: empty_env_def)
  show ?thesis using e m a b k cleanup_Continue [OF c, of ?cfg]
    by (simp add: http_requests_append http_requests_health_stage)
qed

end
